theory Spec2Isabelle
  imports Complex_Main
begin

section \<open>Constants of the C library and of GLFW used by main.cpp\<close>

text \<open>
  The values are those of \<^verbatim>\<open>stdlib.h\<close> and \<^verbatim>\<open>GLFW/glfw3.h\<close>. C \<^verbatim>\<open>int\<close> values are
  modelled as \<^typ>\<open>int\<close>: the program only compares them and converts them to
  \<^verbatim>\<open>float\<close>, it performs no integer arithmetic that could overflow.
\<close>

definition EXIT_SUCCESS :: int where
  "EXIT_SUCCESS = 0"

definition EXIT_FAILURE :: int where
  "EXIT_FAILURE = 1"

definition GLFW_KEY_ESCAPE :: int where
  "GLFW_KEY_ESCAPE = 256"

definition GLFW_PRESS :: int where
  "GLFW_PRESS = 1"

definition GLFW_TRUE :: int where
  "GLFW_TRUE = 1"

type_synonym GLint = int
type_synonym GLuint = nat

text \<open>Passing a \<^verbatim>\<open>GLint\<close> where a \<^verbatim>\<open>GLuint\<close> is expected converts modulo \<open>2^32\<close>.\<close>

definition to_GLuint :: "GLint \<Rightarrow> GLuint" where
  "to_GLuint i = nat (i mod 2 ^ 32)"

datatype glenum =
    GL_ARRAY_BUFFER
  | GL_STATIC_DRAW
  | GL_VERTEX_SHADER
  | GL_FRAGMENT_SHADER
  | GL_FLOAT
  | GL_COLOR_BUFFER_BIT
  | GL_TRIANGLES

datatype glfw_hint =
    GLFW_CONTEXT_VERSION_MAJOR
  | GLFW_CONTEXT_VERSION_MINOR
  | GLFW_OPENGL_PROFILE

datatype hint_value =
    Hint_int int
  | GLFW_OPENGL_CORE_PROFILE


section \<open>C float values\<close>

text \<open>
  A \<^verbatim>\<open>float\<close> is an IEEE 754 binary32 value: a real number that binary32 represents,
  or an infinity, or a NaN. The two zeros are not told apart; the zero produced by
  converting the integer 0 is the positive one, and division treats every zero divisor
  as positive.
\<close>

datatype cfloat = Num real | PInf | NInf | NaN

text \<open>Rounding to the nearest integer, ties to the even one.\<close>

definition round_even :: "real \<Rightarrow> int" where
  "round_even z =
     (let f = \<lfloor>z\<rfloor>; d = z - of_int f
      in if d < 1 / 2 then f else if 1 / 2 < d then f + 1 else if even f then f else f + 1)"

text \<open>
  The binary exponent of a magnitude, searched upwards from \<open>e\<close>: the least exponent
  from \<open>e\<close> on with \<open>a < 2 ^ (e + 1)\<close>, at most 127, the largest exponent of binary32.
\<close>

function binade :: "real \<Rightarrow> int \<Rightarrow> int" where
  "binade a e = (if 127 \<le> e \<or> a < 2 powi (e + 1) then e else binade a (e + 1))"
  by pat_completeness auto
termination
  by (relation "measure (\<lambda>(a, e). nat (127 - e))") auto

text \<open>
  Rounding of a real number to binary32, to nearest, ties to even. The exponent is at
  least -126 (below that the values are subnormal, with the quantum \<open>2 ^ -149\<close>), the
  significand has 24 bits, and a result of magnitude \<open>2 ^ 128\<close> or more is an infinity.
\<close>

definition round_binary32 :: "real \<Rightarrow> cfloat" where
  "round_binary32 x =
     (let e = binade \<bar>x\<bar> (- 126);
          q = 2 powi (e - 23);
          y = of_int (round_even (x / q)) * q
      in if 2 ^ 128 \<le> y then PInf else if y \<le> - (2 ^ 128) then NInf else Num y)"

text \<open>The conversion \<^verbatim>\<open>(float)i\<close> of an \<^verbatim>\<open>int\<close>.\<close>

definition float_of_int :: "int \<Rightarrow> cfloat" where
  "float_of_int i = round_binary32 (real_of_int i)"

text \<open>The conversion \<^verbatim>\<open>(float)d\<close> of a \<^verbatim>\<open>double\<close>, given by its real value.\<close>

definition float_of_double :: "real \<Rightarrow> cfloat" where
  "float_of_double d = round_binary32 d"

fun fneg :: "cfloat \<Rightarrow> cfloat" where
  "fneg (Num a) = Num (- a)"
| "fneg PInf = NInf"
| "fneg NInf = PInf"
| "fneg NaN = NaN"

text \<open>
  Division: the real quotient rounded to binary32; at a zero divisor it does not trap,
  it yields an infinity or a NaN.
\<close>

fun fdiv :: "cfloat \<Rightarrow> cfloat \<Rightarrow> cfloat" where
  "fdiv (Num a) (Num b) =
     (if b = 0 then (if a = 0 then NaN else if 0 < a then PInf else NInf)
      else round_binary32 (a / b))"
| "fdiv (Num a) PInf = Num 0"
| "fdiv (Num a) NInf = Num 0"
| "fdiv PInf (Num b) = (if 0 \<le> b then PInf else NInf)"
| "fdiv NInf (Num b) = (if 0 \<le> b then NInf else PInf)"
| "fdiv PInf PInf = NaN"
| "fdiv PInf NInf = NaN"
| "fdiv NInf PInf = NaN"
| "fdiv NInf NInf = NaN"
| "fdiv NaN y = NaN"
| "fdiv x NaN = NaN"

text \<open>A float is finite when it is neither an infinity nor a NaN.\<close>

fun is_finite :: "cfloat \<Rightarrow> bool" where
  "is_finite (Num a) = True"
| "is_finite PInf = False"
| "is_finite NInf = False"
| "is_finite NaN = False"

text \<open>
  Two floats agree within a tolerance when both are finite and their values differ by at
  most the tolerance; two matrices, given as the lists of their entries, agree within a
  tolerance when they do so entry by entry.
\<close>

fun close_within :: "real \<Rightarrow> cfloat \<Rightarrow> cfloat \<Rightarrow> bool" where
  "close_within eps (Num a) (Num b) = (\<bar>a - b\<bar> \<le> eps)"
| "close_within eps x y = False"

definition mat_close :: "real \<Rightarrow> cfloat list \<Rightarrow> cfloat list \<Rightarrow> bool" where
  "mat_close eps A B = list_all2 (close_within eps) A B"


section \<open>The Vertex type and the triangle\<close>

text \<open>
  \<^verbatim>\<open>typedef struct Vertex { vec2 pos; vec3 col; } Vertex;\<close> The types \<^verbatim>\<open>vec2\<close> and
  \<^verbatim>\<open>vec3\<close> are declared in \<^verbatim>\<open>linmath.h\<close>, so what the compiler computes for
  \<^verbatim>\<open>sizeof(Vertex)\<close> and \<^verbatim>\<open>offsetof(Vertex, _)\<close> is a parameter of the model.
\<close>

record layout =
  sizeof_Vertex :: nat
  offsetof_Vertex_pos :: nat
  offsetof_Vertex_col :: nat

record Vertex =
  pos :: "cfloat list"
  col :: "cfloat list"

text \<open>The float literals of the source are the binary32 roundings of their decimals;
  \<^verbatim>\<open>-0.6f\<close> is the negation of the literal \<^verbatim>\<open>0.6f\<close>.\<close>

definition vertices :: "Vertex list" where
  "vertices =
    [ \<lparr> pos = [fneg (round_binary32 0.6), fneg (round_binary32 0.4)],
        col = [round_binary32 1, round_binary32 0, round_binary32 0] \<rparr>,
      \<lparr> pos = [round_binary32 0.6, fneg (round_binary32 0.4)],
        col = [round_binary32 0, round_binary32 1, round_binary32 0] \<rparr>,
      \<lparr> pos = [round_binary32 0, round_binary32 0.6],
        col = [round_binary32 0, round_binary32 0, round_binary32 1] \<rparr> ]"

text \<open>\<^verbatim>\<open>sizeof(vertices)\<close>: an array of three \<^verbatim>\<open>Vertex\<close>.\<close>

definition sizeof_vertices :: "layout \<Rightarrow> nat" where
  "sizeof_vertices ly = 3 * sizeof_Vertex ly"

text \<open>The shader sources, one list element per line (each line ends in a newline).\<close>

definition vertex_shader_text :: "string list" where
  "vertex_shader_text =
    [''#version 330'',
     ''uniform mat4 MVP;'',
     ''in vec3 vCol;'',
     ''in vec2 vPos;'',
     ''out vec3 color;'',
     ''void main()'',
     ''{'',
     ''    gl_Position = MVP * vec4(vPos, 0.0, 1.0);'',
     ''    color = vCol;'',
     ''}'']"

definition fragment_shader_text :: "string list" where
  "fragment_shader_text =
    [''#version 330'',
     ''in vec3 color;'',
     ''out vec4 fragment;'',
     ''void main()'',
     ''{'',
     ''    fragment = vec4(color, 1.0);'',
     ''}'']"


section \<open>The matrix functions of linmath.h\<close>

text \<open>
  \<^verbatim>\<open>linmath.h\<close> is included by main.cpp, its functions are parameters of the model:
  \<open>'m\<close> is the type of a \<^verbatim>\<open>mat4x4\<close> value. A function that writes its first argument
  returns the value written.
\<close>

record 'm linmath =
  mat4x4_identity :: "'m"
  mat4x4_rotate_Z :: "'m \<Rightarrow> cfloat \<Rightarrow> 'm"
  mat4x4_ortho :: "cfloat \<Rightarrow> cfloat \<Rightarrow> cfloat \<Rightarrow> cfloat \<Rightarrow> cfloat \<Rightarrow> cfloat \<Rightarrow> 'm"
  mat4x4_mul :: "'m \<Rightarrow> 'm \<Rightarrow> 'm"

text \<open>
  An instance that records which function was called with which arguments; it is used to
  run the model on concrete inputs.
\<close>

datatype mexp =
    Identity
  | Rotate_Z mexp cfloat
  | Ortho cfloat cfloat cfloat cfloat cfloat cfloat
  | Mul mexp mexp

definition symbolic :: "mexp linmath" where
  "symbolic = \<lparr> mat4x4_identity = Identity, mat4x4_rotate_Z = Rotate_Z,
                 mat4x4_ortho = Ortho, mat4x4_mul = Mul \<rparr>"

definition std_layout :: layout where
  "std_layout = \<lparr> sizeof_Vertex = 20, offsetof_Vertex_pos = 0, offsetof_Vertex_col = 8 \<rparr>"


text \<open>
  Modelled from the spec: \<^verbatim>\<open>mat4x4_identity\<close> and \<^verbatim>\<open>mat4x4_rotate_Z\<close> of
  \<^verbatim>\<open>linmath.h\<close>, which is not among the sources. Section 4.3, step 5: the model matrix is
  the identity rotated about the Z axis by the angle. Its sixteen entries are listed column
  by column; the sine and cosine are the binary32 roundings of the real sine and cosine of
  the angle, and are NaN at an angle that is not finite.
\<close>

fun sinf :: "cfloat \<Rightarrow> cfloat" where
  "sinf (Num a) = round_binary32 (sin a)"
| "sinf x = NaN"

fun cosf :: "cfloat \<Rightarrow> cfloat" where
  "cosf (Num a) = round_binary32 (cos a)"
| "cosf x = NaN"

definition model_matrix_spec :: "cfloat \<Rightarrow> cfloat list" where
  "model_matrix_spec angle =
     [cosf angle, sinf angle, Num 0, Num 0,
      fneg (sinf angle), cosf angle, Num 0, Num 0,
      Num 0, Num 0, Num 1, Num 0,
      Num 0, Num 0, Num 0, Num 1]"

text \<open>
  The model matrix of an iteration in which \<^verbatim>\<open>glfwGetTime\<close> returns \<open>t\<close>: main.cpp line
  153 passes \<^verbatim>\<open>(float)glfwGetTime()\<close> as the angle.
\<close>

definition model_matrix_at :: "real \<Rightarrow> cfloat list" where
  "model_matrix_at t = model_matrix_spec (float_of_double t)"


section \<open>The window and its close flag\<close>

text \<open>
  The only state of a GLFW window the program reads or writes is the close flag.
  \<^verbatim>\<open>glfwCreateWindow\<close> returns a window whose flag is clear.
\<close>

record window =
  shouldClose :: bool

definition new_window :: window where
  "new_window = \<lparr> shouldClose = False \<rparr>"

definition glfwSetWindowShouldClose :: "window \<Rightarrow> int \<Rightarrow> window" where
  "glfwSetWindowShouldClose w v = w \<lparr> shouldClose := (v \<noteq> 0) \<rparr>"

definition glfwWindowShouldClose :: "window \<Rightarrow> bool" where
  "glfwWindowShouldClose w = shouldClose w"

text \<open>\<^verbatim>\<open>key_callback\<close>, main.cpp lines 56 to 60.\<close>

definition key_callback :: "window \<Rightarrow> int \<Rightarrow> int \<Rightarrow> int \<Rightarrow> int \<Rightarrow> window" where
  "key_callback w key scancode action mods =
     (if key = GLFW_KEY_ESCAPE \<and> action = GLFW_PRESS
      then glfwSetWindowShouldClose w GLFW_TRUE
      else w)"

text \<open>
  What \<^verbatim>\<open>glfwPollEvents\<close> finds pending: key events, which GLFW hands to the installed
  key callback, and close requests of the window system, for which GLFW itself sets the
  close flag (the program installs no close callback).
\<close>

datatype event =
    Key_event int int int int
  | Close_request

fun dispatch :: "window \<Rightarrow> event \<Rightarrow> window" where
  "dispatch w (Key_event key scancode action mods) = key_callback w key scancode action mods"
| "dispatch w Close_request = w \<lparr> shouldClose := True \<rparr>"

definition glfwPollEvents :: "window \<Rightarrow> event list \<Rightarrow> window" where
  "glfwPollEvents w evs = foldl dispatch w evs"


section \<open>Calls into GLFW, GLAD and OpenGL\<close>

text \<open>
  What the program does is the sequence of calls it makes into the libraries, and its exit
  status. One constructor per library function the program calls, with the arguments that
  the program passes by value.
\<close>

datatype 'm call =
    GlfwSetErrorCallback
  | GlfwInit
  | GlfwWindowHint glfw_hint hint_value
  | GlfwCreateWindow int int string
  | GlfwTerminate
  | GlfwSetKeyCallback
  | GlfwMakeContextCurrent
  | GladLoadGL
  | GlfwSwapInterval int
  | GlGenBuffers int
  | GlBindBuffer glenum GLuint
  | GlBufferData glenum nat "Vertex list" glenum
  | GlCreateShader glenum
  | GlShaderSource GLuint int "string list"
  | GlCompileShader GLuint
  | GlCreateProgram
  | GlAttachShader GLuint GLuint
  | GlLinkProgram GLuint
  | GlGetUniformLocation GLuint string
  | GlGetAttribLocation GLuint string
  | GlGenVertexArrays int
  | GlBindVertexArray GLuint
  | GlEnableVertexAttribArray GLuint
  | GlVertexAttribPointer GLuint int glenum bool nat nat
  | GlfwWindowShouldClose
  | GlfwGetFramebufferSize
  | GlViewport int int int int
  | GlClear glenum
  | GlfwGetTime
  | GlUseProgram GLuint
  | GlUniformMatrix4fv GLint int bool 'm
  | GlDrawArrays glenum int int
  | GlfwSwapBuffers
  | GlfwPollEvents
  | GlfwDestroyWindow

text \<open>
  What the libraries answer during one iteration of the loop: the framebuffer size, the
  time of \<^verbatim>\<open>glfwGetTime\<close> (a double), and the events that \<^verbatim>\<open>glfwPollEvents\<close> finds.
\<close>

record frame_input =
  fb_width :: int
  fb_height :: int
  time :: real
  events :: "event list"

text \<open>
  What the libraries answer during one run. The three shader status fields are the state
  that OpenGL keeps after \<^verbatim>\<open>glCompileShader\<close> and \<^verbatim>\<open>glLinkProgram\<close>; the program has
  to ask for them to see them.
\<close>

record env =
  glfwInit_result :: int
  glfwCreateWindow_result :: "window option"
  gladLoadGL_result :: int
  vertex_buffer :: GLuint
  vertex_shader :: GLuint
  fragment_shader :: GLuint
  vertex_compiled :: bool
  fragment_compiled :: bool
  program :: GLuint
  program_linked :: bool
  mvp_location :: GLint
  vpos_location :: GLint
  vcol_location :: GLint
  vertex_array :: GLuint
  frames :: "frame_input list"

text \<open>How a run ends: the process has exited with a status, or the loop is still running
  when the recorded answers of the libraries are used up.\<close>

datatype 'm outcome =
    Exited int "'m call list"
  | Running "'m call list"

fun calls_of :: "'m outcome \<Rightarrow> 'm call list" where
  "calls_of (Exited st cs) = cs"
| "calls_of (Running cs) = cs"

fun exit_status :: "'m outcome \<Rightarrow> int option" where
  "exit_status (Exited st cs) = Some st"
| "exit_status (Running cs) = None"


section \<open>The program\<close>

text \<open>\<^verbatim>\<open>const float ratio = width / (float)height;\<close> (main.cpp line 142).\<close>

definition aspect_ratio :: "int \<Rightarrow> int \<Rightarrow> cfloat" where
  "aspect_ratio width height = fdiv (float_of_int width) (float_of_int height)"

text \<open>The body of the loop, main.cpp lines 139 to 163.\<close>

definition frame :: "'m linmath \<Rightarrow> env \<Rightarrow> frame_input \<Rightarrow> 'm call list" where
  "frame L env inp =
    (let width = fb_width inp;
         height = fb_height inp;
         ratio = aspect_ratio width height;
         m = mat4x4_identity L;
         m = mat4x4_rotate_Z L m (float_of_double (time inp));
         p = mat4x4_ortho L (fneg ratio) ratio (Num (- 1)) (Num 1) (Num 1) (Num (- 1));
         mvp = mat4x4_mul L p m
     in [GlfwGetFramebufferSize,
         GlViewport 0 0 width height,
         GlClear GL_COLOR_BUFFER_BIT,
         GlfwGetTime,
         GlUseProgram (program env),
         GlUniformMatrix4fv (mvp_location env) 1 False mvp,
         GlBindVertexArray (vertex_array env),
         GlDrawArrays GL_TRIANGLES 0 3,
         GlfwSwapBuffers,
         GlfwPollEvents])"

text \<open>
  \<^verbatim>\<open>while (!glfwWindowShouldClose(window)) { ... }\<close> (main.cpp lines 137 to 164). The
  result says whether the loop has ended, and lists the calls made. Each iteration uses
  up one recorded \<^typ>\<open>frame_input\<close>; the loop has not ended when none is left and the
  close flag is still clear.
\<close>

fun run_loop :: "'m linmath \<Rightarrow> env \<Rightarrow> window \<Rightarrow> frame_input list \<Rightarrow> bool \<times> 'm call list" where
  "run_loop L env w [] = (glfwWindowShouldClose w, [GlfwWindowShouldClose])"
| "run_loop L env w (inp # rest) =
    (if glfwWindowShouldClose w then (True, [GlfwWindowShouldClose])
     else (case run_loop L env (glfwPollEvents w (events inp)) rest of
             (ended, cs) \<Rightarrow> (ended, GlfwWindowShouldClose # frame L env inp @ cs)))"

text \<open>main.cpp lines 65 to 77: up to the creation of the window.\<close>

definition startup :: "'m call list" where
  "startup =
    [GlfwSetErrorCallback,
     GlfwInit,
     GlfwWindowHint GLFW_CONTEXT_VERSION_MAJOR (Hint_int 3),
     GlfwWindowHint GLFW_CONTEXT_VERSION_MINOR (Hint_int 3),
     GlfwWindowHint GLFW_OPENGL_PROFILE GLFW_OPENGL_CORE_PROFILE,
     GlfwCreateWindow 640 480 ''OpenGL Triangle'']"

text \<open>main.cpp lines 86 to 134: from the key callback to the vertex array object.\<close>

definition gl_setup :: "layout \<Rightarrow> env \<Rightarrow> 'm call list" where
  "gl_setup ly env =
    [GlfwSetKeyCallback,
     GlfwMakeContextCurrent,
     GladLoadGL,
     GlfwSwapInterval 1,
     GlGenBuffers 1,
     GlBindBuffer GL_ARRAY_BUFFER (vertex_buffer env),
     GlBufferData GL_ARRAY_BUFFER (sizeof_vertices ly) vertices GL_STATIC_DRAW,
     GlCreateShader GL_VERTEX_SHADER,
     GlShaderSource (vertex_shader env) 1 vertex_shader_text,
     GlCompileShader (vertex_shader env),
     GlCreateShader GL_FRAGMENT_SHADER,
     GlShaderSource (fragment_shader env) 1 fragment_shader_text,
     GlCompileShader (fragment_shader env),
     GlCreateProgram,
     GlAttachShader (program env) (vertex_shader env),
     GlAttachShader (program env) (fragment_shader env),
     GlLinkProgram (program env),
     GlGetUniformLocation (program env) ''MVP'',
     GlGetAttribLocation (program env) ''vPos'',
     GlGetAttribLocation (program env) ''vCol'',
     GlGenVertexArrays 1,
     GlBindVertexArray (vertex_array env),
     GlEnableVertexAttribArray (to_GLuint (vpos_location env)),
     GlVertexAttribPointer (to_GLuint (vpos_location env)) 2 GL_FLOAT False
       (sizeof_Vertex ly) (offsetof_Vertex_pos ly),
     GlEnableVertexAttribArray (to_GLuint (vcol_location env)),
     GlVertexAttribPointer (to_GLuint (vcol_location env)) 3 GL_FLOAT False
       (sizeof_Vertex ly) (offsetof_Vertex_col ly)]"

text \<open>main.cpp lines 167 to 170.\<close>

definition teardown :: "'m call list" where
  "teardown = [GlfwDestroyWindow, GlfwTerminate]"

text \<open>
  \<^verbatim>\<open>main\<close>, main.cpp lines 62 to 174. The results of \<^verbatim>\<open>gladLoadGL\<close>,
  \<^verbatim>\<open>glCompileShader\<close> and \<^verbatim>\<open>glLinkProgram\<close> are not read by the program.
\<close>

definition main :: "'m linmath \<Rightarrow> layout \<Rightarrow> env \<Rightarrow> 'm outcome" where
  "main L ly env =
    (if glfwInit_result env = 0
     then Exited EXIT_FAILURE [GlfwSetErrorCallback, GlfwInit]
     else (case glfwCreateWindow_result env of
             None \<Rightarrow> Exited EXIT_FAILURE (startup @ [GlfwTerminate])
           | Some window \<Rightarrow>
              (case run_loop L env window (frames env) of
                 (ended, cs) \<Rightarrow>
                   if ended
                   then Exited EXIT_SUCCESS (startup @ gl_setup ly env @ cs @ teardown)
                   else Running (startup @ gl_setup ly env @ cs))))"


section \<open>Observations on a run\<close>

text \<open>The calls that upload a matrix uniform.\<close>

fun is_upload :: "'m call \<Rightarrow> bool" where
  "is_upload (GlUniformMatrix4fv loc n tr mvp) = True"
| "is_upload c = False"

fun is_attrib_pointer :: "'m call \<Rightarrow> bool" where
  "is_attrib_pointer (GlVertexAttribPointer loc n ty nm stride off) = True"
| "is_attrib_pointer c = False"

text \<open>The number of iterations the loop makes from a window state on the recorded
  inputs.\<close>

fun iterations :: "window \<Rightarrow> frame_input list \<Rightarrow> nat" where
  "iterations w [] = 0"
| "iterations w (inp # rest) =
    (if glfwWindowShouldClose w then 0
     else Suc (iterations (glfwPollEvents w (events inp)) rest))"

text \<open>A run used for the concrete evaluations below: every library call succeeds, the
  window is 640 by 480.\<close>

definition env0 :: env where
  "env0 = \<lparr> glfwInit_result = 1, glfwCreateWindow_result = Some new_window,
             gladLoadGL_result = 1, vertex_buffer = 1, vertex_shader = 1,
             fragment_shader = 2, vertex_compiled = True, fragment_compiled = True,
             program = 3, program_linked = True, mvp_location = 0, vpos_location = 1,
             vcol_location = 0, vertex_array = 1, frames = [] \<rparr>"

definition escape_press :: event where
  "escape_press = Key_event GLFW_KEY_ESCAPE 1 GLFW_PRESS 0"

definition frame0 :: frame_input where
  "frame0 = \<lparr> fb_width = 640, fb_height = 480, time = 0, events = [] \<rparr>"


text \<open>
  A second iteration: the framebuffer is 1280 by 720, the time is the double nearest to
  0.1, and Escape is pressed.
\<close>

definition frame1 :: frame_input where
  "frame1 = \<lparr> fb_width = 1280, fb_height = 720,
               time = 3602879701896397 / 36028797018963968, events = [escape_press] \<rparr>"

text \<open>The run with these two iterations.\<close>

definition env2 :: env where
  "env2 = env0 \<lparr> frames := [frame0, frame1] \<rparr>"

text \<open>The same run with one iteration, during which Escape is pressed.\<close>

definition env_esc :: env where
  "env_esc = env0 \<lparr> frames := [frame0 \<lparr> events := [escape_press] \<rparr>] \<rparr>"


section \<open>Lemmas\<close>

subsection \<open>Rounding to binary32\<close>

declare binade.simps [simp del]

lemma binade_range: "e0 \<le> 127 \<Longrightarrow> e0 \<le> binade a e0 \<and> binade a e0 \<le> 127"
proof (induction a e0 rule: binade.induct)
  case (1 a e)
  show ?case
  proof (cases "127 \<le> e \<or> a < 2 powi (e + 1)")
    case True
    then show ?thesis using 1(2) by (subst binade.simps, subst binade.simps) simp
  next
    case False
    then have "e + 1 \<le> binade a (e + 1) \<and> binade a (e + 1) \<le> 127"
      using 1 by simp
    moreover have "binade a e = binade a (e + 1)"
      using False by (subst binade.simps) simp
    ultimately show ?thesis by simp
  qed
qed

lemma binade_upper: "binade a e0 < 127 \<Longrightarrow> a < 2 powi (binade a e0 + 1)"
proof (induction a e0 rule: binade.induct)
  case (1 a e)
  show ?case
  proof (cases "127 \<le> e \<or> a < 2 powi (e + 1)")
    case True
    then have b: "binade a e = e" by (subst binade.simps) simp
    with 1(2) True show ?thesis by simp
  next
    case False
    then have b: "binade a e = binade a (e + 1)" by (subst binade.simps) simp
    with 1 False show ?thesis by simp
  qed
qed

lemma binade_lower: "e0 < binade a e0 \<Longrightarrow> 2 powi (binade a e0) \<le> a"
proof (induction a e0 rule: binade.induct)
  case (1 a e)
  show ?case
  proof (cases "127 \<le> e \<or> a < 2 powi (e + 1)")
    case True
    then have b: "binade a e = e" by (subst binade.simps) simp
    with 1(2) show ?thesis by simp
  next
    case False
    then have b: "binade a e = binade a (e + 1)" by (subst binade.simps) simp
    show ?thesis
    proof (cases "e + 1 < binade a (e + 1)")
      case True
      with 1(1) False b show ?thesis by simp
    next
      case f: False
      have "e + 1 \<le> binade a (e + 1)"
        using binade_range [of "e + 1" a] False by simp
      with f have "binade a (e + 1) = e + 1" by simp
      with b False show ?thesis by simp
    qed
  qed
qed

lemma binade_eq:
  assumes "2 powi e \<le> a" and "a < 2 powi (e + 1)" and "e0 \<le> e" and "e \<le> 127"
  shows "binade a e0 = e"
proof -
  have r: "e0 \<le> binade a e0 \<and> binade a e0 \<le> 127"
    using assms by (intro binade_range) simp
  have le: "binade a e0 \<le> e"
  proof (rule ccontr)
    assume "\<not> binade a e0 \<le> e"
    then have g: "e + 1 \<le> binade a e0" by simp
    then have "e0 < binade a e0" using assms by simp
    then have "2 powi (binade a e0) \<le> a" by (rule binade_lower)
    moreover have "(2::real) powi (e + 1) \<le> 2 powi (binade a e0)"
      using g by (intro power_int_increasing) simp_all
    ultimately show False using assms by simp
  qed
  have ge: "e \<le> binade a e0"
  proof (rule ccontr)
    assume "\<not> e \<le> binade a e0"
    then have l: "binade a e0 + 1 \<le> e" by simp
    then have "binade a e0 < 127" using assms by simp
    then have "a < 2 powi (binade a e0 + 1)" by (rule binade_upper)
    moreover have "(2::real) powi (binade a e0 + 1) \<le> 2 powi e"
      using l by (intro power_int_increasing) simp_all
    ultimately show False using assms by simp
  qed
  from le ge show ?thesis by simp
qed

lemma binade_small: "a < 2 powi (e0 + 1) \<Longrightarrow> binade a e0 = e0"
  by (subst binade.simps) simp

lemma round_even_error: "\<bar>of_int (round_even z) - z\<bar> \<le> 1 / 2"
  unfolding round_even_def Let_def by (auto; linarith)

lemma round_even_of_int [simp]: "round_even (of_int n) = n"
  by (simp add: round_even_def)

text \<open>The rounded value lies within half a quantum of the number rounded.\<close>

lemma round_binary32_core:
  fixes x :: real
  defines "e \<equiv> binade \<bar>x\<bar> (- 126)"
  defines "q \<equiv> (2::real) powi (e - 23)"
  defines "y \<equiv> of_int (round_even (x / q)) * q"
  shows "- 126 \<le> e" and "e \<le> 127" and "0 < q" and "\<bar>y - x\<bar> \<le> q / 2"
    and "round_binary32 x = (if 2 ^ 128 \<le> y then PInf else if y \<le> - (2 ^ 128) then NInf else Num y)"
proof -
  show "- 126 \<le> e" "e \<le> 127"
    using binade_range [of "- 126" "\<bar>x\<bar>"] by (simp_all add: e_def)
  show q: "0 < q" by (simp add: q_def)
  have "\<bar>of_int (round_even (x / q)) - x / q\<bar> \<le> 1 / 2"
    by (rule round_even_error)
  then have "\<bar>of_int (round_even (x / q)) - x / q\<bar> * q \<le> (1 / 2) * q"
    using q by (intro mult_right_mono) simp_all
  moreover have "\<bar>of_int (round_even (x / q)) - x / q\<bar> * q = \<bar>y - x\<bar>"
  proof -
    have "\<bar>of_int (round_even (x / q)) - x / q\<bar> * q = \<bar>(of_int (round_even (x / q)) - x / q) * q\<bar>"
      using q by (simp add: abs_mult)
    also have "(of_int (round_even (x / q)) - x / q) * q = y - x"
      using q by (simp add: y_def algebra_simps)
    finally show ?thesis .
  qed
  ultimately show "\<bar>y - x\<bar> \<le> q / 2" by simp
  show "round_binary32 x = (if 2 ^ 128 \<le> y then PInf else if y \<le> - (2 ^ 128) then NInf else Num y)"
    by (simp add: round_binary32_def Let_def e_def q_def y_def)
qed

lemma round_binary32_abs_error:
  assumes "\<bar>x\<bar> < 2 powi k" and "- 125 \<le> k" and "k \<le> 127"
  shows "\<exists>y. round_binary32 x = Num y \<and> \<bar>y - x\<bar> \<le> 2 powi (k - 25)"
proof -
  define e where "e = binade \<bar>x\<bar> (- 126)"
  define q where "q = (2::real) powi (e - 23)"
  define y where "y = of_int (round_even (x / q)) * q"
  note c = round_binary32_core [of x, folded e_def q_def y_def]
  have ek: "e \<le> k - 1"
  proof (rule ccontr)
    assume "\<not> e \<le> k - 1"
    then have g: "k \<le> e" by simp
    then have "- 126 < binade \<bar>x\<bar> (- 126)" using assms by (simp add: e_def)
    then have "2 powi e \<le> \<bar>x\<bar>" unfolding e_def by (rule binade_lower)
    moreover have "(2::real) powi k \<le> 2 powi e"
      using g by (intro power_int_increasing) simp_all
    ultimately show False using assms by simp
  qed
  have "q \<le> 2 powi (k - 24)"
    unfolding q_def using ek by (intro power_int_increasing) simp_all
  also have "(2::real) powi (k - 24) = 2 * 2 powi (k - 25)"
    using power_int_add_1 [of "2::real" "k - 25"] by (simp add: algebra_simps)
  finally have qb: "q / 2 \<le> 2 powi (k - 25)" by simp
  with c(4) have err: "\<bar>y - x\<bar> \<le> 2 powi (k - 25)" by simp
  have "(2::real) powi (k - 25) \<le> 2 powi k"
    by (intro power_int_increasing) simp_all
  with err assms have "\<bar>y\<bar> < 2 * 2 powi k" by linarith
  also have "2 * (2::real) powi k \<le> 2 * 2 powi 127"
    using assms by (intro mult_left_mono power_int_increasing) simp_all
  also have "\<dots> = 2 ^ 128" by simp
  finally have "\<bar>y\<bar> < 2 ^ 128" .
  then have "round_binary32 x = Num y"
    using c(5) by (auto simp: abs_less_iff)
  with err show ?thesis by blast
qed

lemma round_binary32_rel_error:
  assumes "2 powi (- 126) \<le> \<bar>x\<bar>" and "\<bar>x\<bar> < 2 ^ 127"
  shows "\<exists>y. round_binary32 x = Num y \<and> \<bar>y - x\<bar> \<le> \<bar>x\<bar> / 2 ^ 24"
proof -
  define e where "e = binade \<bar>x\<bar> (- 126)"
  define q where "q = (2::real) powi (e - 23)"
  define y where "y = of_int (round_even (x / q)) * q"
  note c = round_binary32_core [of x, folded e_def q_def y_def]
  have lo: "2 powi e \<le> \<bar>x\<bar>"
  proof (cases "- 126 < e")
    case True
    then show ?thesis unfolding e_def by (rule binade_lower)
  next
    case False
    with c(1) have "e = - 126" by simp
    with assms show ?thesis by simp
  qed
  have "q = 2 powi e / 2 ^ 23"
    unfolding q_def using power_int_diff [of "2::real" e 23] by simp
  then have "q / 2 = 2 powi e / 2 ^ 24" by simp
  also have "\<dots> \<le> \<bar>x\<bar> / 2 ^ 24"
    using lo by (intro divide_right_mono) simp_all
  finally have err: "\<bar>y - x\<bar> \<le> \<bar>x\<bar> / 2 ^ 24"
    using c(4) by simp
  have "\<bar>x\<bar> / 2 ^ 24 \<le> \<bar>x\<bar>" by (simp add: field_simps)
  with err have "\<bar>y\<bar> \<le> 2 * \<bar>x\<bar>" by linarith
  also have "\<dots> < 2 * 2 ^ 127" using assms by simp
  finally have "\<bar>y\<bar> < 2 ^ 128" by simp
  then have "round_binary32 x = Num y"
    using c(5) by (auto simp: abs_less_iff)
  with err show ?thesis by blast
qed

text \<open>Rounding when the binary exponent of the number is known.\<close>

lemma round_binary32_eval:
  assumes "2 powi e \<le> \<bar>x\<bar>" and "\<bar>x\<bar> < 2 powi (e + 1)" and "- 126 \<le> e" and "e \<le> 127"
  shows "round_binary32 x =
     (let y = of_int (round_even (x / 2 powi (e - 23))) * 2 powi (e - 23)
      in if 2 ^ 128 \<le> y then PInf else if y \<le> - (2 ^ 128) then NInf else Num y)"
  using binade_eq [OF assms] by (simp add: round_binary32_def Let_def)

lemma round_binary32_zero [simp]: "round_binary32 0 = Num 0"
  by (simp add: round_binary32_def Let_def binade_small round_even_def)

lemma round_binary32_exact:
  assumes "x = of_int n * 2 powi (e - 23)" and "\<bar>n\<bar> < 2 ^ 24" and "2 ^ 23 \<le> \<bar>n\<bar>"
    and "- 126 \<le> e" and "e \<le> 127"
  shows "round_binary32 x = Num x"
proof -
  have q: "(2::real) powi (e - 23) = 2 powi e / 2 ^ 23"
    using power_int_diff [of "2::real" e 23] by simp
  have ax: "\<bar>x\<bar> = of_int \<bar>n\<bar> * 2 powi e / 2 ^ 23"
    by (simp add: assms(1) q abs_mult)
  have "2 ^ 23 \<le> (of_int \<bar>n\<bar> :: real)"
    using assms(3) by (metis of_int_le_iff of_int_numeral of_int_power)
  then have lo: "2 powi e \<le> \<bar>x\<bar>"
    unfolding ax by (simp add: field_simps)
  have "(of_int \<bar>n\<bar> :: real) < 2 ^ 24"
    using assms(2) by (metis of_int_less_iff of_int_numeral of_int_power)
  then have "of_int \<bar>n\<bar> * 2 powi e / 2 ^ 23 < 2 ^ 24 * 2 powi e / (2 ^ 23 :: real)"
    by (intro divide_strict_right_mono mult_strict_right_mono) simp_all
  also have "\<dots> = 2 powi (e + 1)"
    using power_int_add_1 [of "2::real" e] by simp
  finally have hi: "\<bar>x\<bar> < 2 powi (e + 1)" unfolding ax .
  have d: "x / 2 powi (e - 23) = of_int n"
    by (simp add: assms(1))
  have "\<bar>x\<bar> < 2 powi (e + 1)" by (rule hi)
  also have "(2::real) powi (e + 1) \<le> 2 powi 128"
    using assms by (intro power_int_increasing) simp_all
  finally have "\<bar>x\<bar> < 2 ^ 128" by simp
  then show ?thesis
    using round_binary32_eval [OF lo hi assms(4,5)]
    by (auto simp add: d Let_def assms(1) [symmetric] abs_less_iff)
qed

lemma round_binary32_integral:
  assumes "x / 2 powi (binade \<bar>x\<bar> (- 126) - 23) = of_int n" and "\<bar>x\<bar> < 2 ^ 128"
  shows "round_binary32 x = Num x"
proof -
  have "of_int (round_even (x / 2 powi (binade \<bar>x\<bar> (- 126) - 23))) * 2 powi (binade \<bar>x\<bar> (- 126) - 23) = x"
    unfolding assms(1) round_even_of_int unfolding assms(1) [symmetric] by simp
  then show ?thesis
    using assms(2) round_binary32_core(5) [of x] by (auto simp: abs_less_iff)
qed

lemma round_binary32_of_int:
  assumes "\<bar>i\<bar> \<le> 2 ^ 24"
  shows "round_binary32 (of_int i) = Num (of_int i)"
proof (cases "i = 0")
  case True
  then show ?thesis by simp
next
  case False
  define x :: real where "x = of_int i"
  define e where "e = binade \<bar>x\<bar> (- 126)"
  have x1: "1 \<le> \<bar>x\<bar>"
    using False by (simp add: x_def)
  have "\<bar>x\<bar> = of_int \<bar>i\<bar>" by (simp add: x_def)
  also have "\<dots> \<le> of_int (2 ^ 24)" using assms by (subst of_int_le_iff)
  finally have x2: "\<bar>x\<bar> \<le> 2 ^ 24" by simp
  have r: "- 126 \<le> e \<and> e \<le> 127"
    using binade_range [of "- 126" "\<bar>x\<bar>"] by (simp add: e_def)
  have e_lo: "0 \<le> e"
  proof (rule ccontr)
    assume "\<not> 0 \<le> e"
    then have n: "e + 1 \<le> 0" by simp
    then have "binade \<bar>x\<bar> (- 126) < 127" by (simp add: e_def)
    then have "\<bar>x\<bar> < 2 powi (e + 1)" unfolding e_def by (rule binade_upper)
    also have "(2::real) powi (e + 1) \<le> 2 powi 0"
      using n by (intro power_int_increasing) simp_all
    finally show False using x1 by simp
  qed
  have e_hi: "e \<le> 24"
  proof (rule ccontr)
    assume "\<not> e \<le> 24"
    then have g: "25 \<le> e" by simp
    then have "- 126 < binade \<bar>x\<bar> (- 126)" by (simp add: e_def)
    then have "2 powi e \<le> \<bar>x\<bar>" unfolding e_def by (rule binade_lower)
    moreover have "(2::real) powi 25 \<le> 2 powi e"
      using g by (intro power_int_increasing) simp_all
    ultimately show False using x2 by simp
  qed
  have "\<exists>n. x / 2 powi (e - 23) = of_int n"
  proof (cases "e \<le> 23")
    case True
    have "(2::real) powi (e - 23) = inverse (2 powi (23 - e))"
      using power_int_minus [of "2::real" "23 - e"] by simp
    also have "(2::real) powi (23 - e) = 2 ^ nat (23 - e)"
      using True by (simp add: power_int_nonneg_exp)
    finally have "x / 2 powi (e - 23) = of_int (i * 2 ^ nat (23 - e))"
      by (simp add: x_def field_simps)
    then show ?thesis by blast
  next
    case False
    with e_hi have e24: "e = 24" by simp
    then have "- 126 < binade \<bar>x\<bar> (- 126)" by (simp add: e_def)
    then have "2 powi e \<le> \<bar>x\<bar>" unfolding e_def by (rule binade_lower)
    with x2 e24 have "\<bar>x\<bar> = 2 ^ 24" by simp
    then have "\<bar>i\<bar> = 2 ^ 24"
      unfolding x_def by (metis of_int_abs of_int_eq_iff of_int_numeral of_int_power)
    then have "i = 2 ^ 24 \<or> i = - (2 ^ 24)" by linarith
    then have "x / 2 powi (e - 23) = of_int (i div 2)"
      unfolding x_def e24 by auto
    then show ?thesis by blast
  qed
  then obtain n where n: "x / 2 powi (binade \<bar>x\<bar> (- 126) - 23) = of_int n"
    unfolding e_def by blast
  have "\<bar>x\<bar> < 2 ^ 128" using x2 by simp
  with n have "round_binary32 x = Num x" by (rule round_binary32_integral)
  then show ?thesis by (simp add: x_def)
qed

lemma round_binary32_pos:
  assumes "1 \<le> x" and "x < 2 ^ 127"
  shows "\<exists>y. round_binary32 x = Num y \<and> 0 < y \<and> \<bar>y - x\<bar> \<le> x / 2 ^ 24"
proof -
  have "(2::real) powi (- 126) \<le> 2 powi 0"
    by (intro power_int_increasing) simp_all
  then have "2 powi (- 126) \<le> \<bar>x\<bar>" using assms by simp
  moreover have "\<bar>x\<bar> < 2 ^ 127" using assms by simp
  ultimately obtain y where y: "round_binary32 x = Num y" "\<bar>y - x\<bar> \<le> \<bar>x\<bar> / 2 ^ 24"
    using round_binary32_rel_error by blast
  have "\<bar>x\<bar> / 2 ^ 24 < x" using assms by (simp add: field_simps)
  with y(2) have "0 < y" by linarith
  with y assms show ?thesis by auto
qed


lemma round_binary32_640: "round_binary32 640 = Num 640"
  using round_binary32_of_int [of 640] by simp

lemma round_binary32_480: "round_binary32 480 = Num 480"
  using round_binary32_of_int [of 480] by simp

lemma round_binary32_1280: "round_binary32 1280 = Num 1280"
  using round_binary32_of_int [of 1280] by simp

lemma round_binary32_720: "round_binary32 720 = Num 720"
  using round_binary32_of_int [of 720] by simp

lemma round_binary32_4_3: "round_binary32 (4 / 3) = Num (11184811 / 8388608)"
  by (subst round_binary32_eval [where e = 0]) (simp_all add: round_even_def)

lemma round_binary32_16_9: "round_binary32 (16 / 9) = Num (14913081 / 8388608)"
  by (subst round_binary32_eval [where e = 0]) (simp_all add: round_even_def)

lemma round_binary32_tenth:
  "round_binary32 (3602879701896397 / 36028797018963968) = Num (13421773 / 134217728)"
  by (subst round_binary32_eval [where e = "- 4"]) (simp_all add: round_even_def)

subsection \<open>Sine, cosine and the model matrix\<close>

lemma arctan_le_self:
  fixes x :: real
  assumes "0 \<le> x"
  shows "arctan x \<le> x"
proof -
  have d: "\<exists>y. ((\<lambda>v. v - arctan v) has_real_derivative y) (at u) \<and> 0 \<le> y" for u :: real
  proof -
    have "((\<lambda>v. v - arctan v) has_real_derivative 1 - inverse (1 + u\<^sup>2)) (at u)"
      by (auto intro!: derivative_eq_intros simp: field_simps)
    moreover have "inverse (1 + u\<^sup>2) \<le> 1"
      by (simp add: inverse_le_1_iff)
    ultimately show ?thesis by (intro exI [of _ "1 - inverse (1 + u\<^sup>2)"]) simp
  qed
  have "0 - arctan 0 \<le> x - arctan x"
    using assms d by (intro DERIV_nonneg_imp_nondecreasing [where f = "\<lambda>v. v - arctan v"]) auto
  then show ?thesis by simp
qed

lemma pi_ge_3: "3 \<le> pi"
proof -
  have "sin (pi / 6) \<le> pi / 6"
    by (rule sin_x_le_x) simp
  then show ?thesis by (simp add: sin_30)
qed

lemma pi_le_16_5: "pi \<le> 16 / 5"
proof -
  have "arctan (1 / 5) \<le> 1 / 5"
    by (rule arctan_le_self) simp
  moreover have "0 \<le> arctan (1 / 239)"
    by simp
  ultimately have "4 * arctan (1 / 5) - arctan (1 / 239) \<le> 4 / 5"
    by linarith
  then have "pi / 4 \<le> 4 / 5"
    using machin by simp
  then show ?thesis by simp
qed

lemma cos_lipschitz: "\<bar>cos a - cos b\<bar> \<le> \<bar>a - b\<bar>" for a b :: real
proof -
  have "\<bar>cos a - cos b\<bar> = 2 * \<bar>sin ((a + b) / 2)\<bar> * \<bar>sin ((b - a) / 2)\<bar>"
    by (simp add: cos_diff_cos abs_mult)
  also have "\<dots> \<le> 2 * 1 * \<bar>(b - a) / 2\<bar>"
    by (intro mult_mono abs_sin_x_le_abs_x) simp_all
  finally show ?thesis by simp
qed

lemma sin_lipschitz: "\<bar>sin a - sin b\<bar> \<le> \<bar>a - b\<bar>" for a b :: real
proof -
  have "\<bar>sin a - sin b\<bar> = 2 * \<bar>sin ((a - b) / 2)\<bar> * \<bar>cos ((a + b) / 2)\<bar>"
    by (simp add: sin_diff_sin abs_mult)
  also have "\<dots> \<le> 2 * \<bar>(a - b) / 2\<bar> * 1"
    by (intro mult_mono abs_sin_x_le_abs_x) simp_all
  finally show ?thesis by simp
qed

lemma cos_8_nonpos: "cos (8::real) \<le> 0"
proof -
  have "0 \<le> cos (3 * pi - 8)"
  proof (rule cos_ge_zero)
    show "- (pi / 2) \<le> 3 * pi - 8"
      using pi_ge_3 by linarith
    show "3 * pi - 8 \<le> pi / 2"
      using pi_le_16_5 by linarith
  qed
  moreover have "cos (3 * pi - 8) = - cos 8"
  proof -
    have "cos (3 * pi - 8) = cos ((pi - 8) + 2 * pi)" by (simp add: algebra_simps)
    also have "\<dots> = cos (pi - 8)" by (rule cos_periodic)
    also have "\<dots> = - cos 8" by simp
    finally show ?thesis .
  qed
  ultimately show ?thesis by simp
qed

lemma chord: "(cos a - cos b)\<^sup>2 + (sin a - sin b)\<^sup>2 = 2 - 2 * cos (a - b)" for a b :: real
proof -
  have "(cos a - cos b)\<^sup>2 + (sin a - sin b)\<^sup>2
      = (cos a * cos a + sin a * sin a) + (cos b * cos b + sin b * sin b)
        - 2 * (cos a * cos b + sin a * sin b)"
    by (simp add: power2_eq_square algebra_simps)
  also have "\<dots> = 2 - 2 * cos (a - b)"
    by (simp add: cos_diff)
  finally show ?thesis .
qed

lemma round_binary32_2_25: "round_binary32 33554432 = Num 33554432"
  using round_binary32_eval [of 25 "2 ^ 25"] by (simp add: Let_def round_even_def)

lemma round_binary32_2_25_2pi: "round_binary32 (33554432 + 2 * pi) = Num 33554440"
proof -
  have p: "3 \<le> pi" "pi < 4" using pi_ge_3 pi_less_4 by simp_all
  have fl: "\<lfloor>(2 ^ 25 + 2 * pi) / 4\<rfloor> = 2 ^ 23 + 1"
    using p by (intro floor_unique) simp_all
  have re: "round_even ((2 ^ 25 + 2 * pi) / 4) = 2 ^ 23 + 2"
    unfolding round_even_def Let_def fl using p by auto
  have "round_binary32 (2 ^ 25 + 2 * pi) =
     (let y = of_int (round_even ((2 ^ 25 + 2 * pi) / 2 powi (25 - 23))) * 2 powi (25 - 23)
      in if 2 ^ 128 \<le> y then PInf else if y \<le> - (2 ^ 128) then NInf else Num y)"
    using p by (intro round_binary32_eval) simp_all
  also have "(2::real) powi (25 - 23) = 4" by simp
  finally have "round_binary32 (2 ^ 25 + 2 * pi) = Num (2 ^ 25 + 8)"
    unfolding re by (simp add: Let_def)
  then show ?thesis by simp
qed

lemma round_unit_error:
  assumes "\<bar>x\<bar> \<le> 1"
  shows "\<exists>y. round_binary32 x = Num y \<and> \<bar>y - x\<bar> \<le> 1 / 16777216"
proof -
  have "\<bar>x\<bar> < 2 powi 1" using assms by simp
  then obtain y where "round_binary32 x = Num y" "\<bar>y - x\<bar> \<le> 2 powi (1 - 25)"
    using round_binary32_abs_error [of x 1] by auto
  moreover have "(2::real) powi (1 - 25) = 1 / 16777216"
    using power_int_minus_divide [of "2::real" 24] by simp
  ultimately show ?thesis by auto
qed

lemma cosf_error: "\<exists>y. cosf (Num a) = Num y \<and> \<bar>y - cos a\<bar> \<le> 1 / 16777216"
  using round_unit_error [of "cos a"] by simp

lemma sinf_error: "\<exists>y. sinf (Num a) = Num y \<and> \<bar>y - sin a\<bar> \<le> 1 / 16777216"
  using round_unit_error [of "sin a"] by simp

lemma model_matrix_entries:
  "\<exists>c s. model_matrix_spec (Num a) =
           [Num c, Num s, Num 0, Num 0, Num (- s), Num c, Num 0, Num 0,
            Num 0, Num 0, Num 1, Num 0, Num 0, Num 0, Num 0, Num 1] \<and>
         \<bar>c - cos a\<bar> \<le> 1 / 16777216 \<and> \<bar>s - sin a\<bar> \<le> 1 / 16777216"
proof -
  obtain c where c: "cosf (Num a) = Num c" "\<bar>c - cos a\<bar> \<le> 1 / 16777216"
    using cosf_error by blast
  obtain s where s: "sinf (Num a) = Num s" "\<bar>s - sin a\<bar> \<le> 1 / 16777216"
    using sinf_error by blast
  show ?thesis
    using c s by (intro exI [of _ c] exI [of _ s]) (simp add: model_matrix_spec_def)
qed


lemma close_within_mono: "close_within d x y \<Longrightarrow> d \<le> e \<Longrightarrow> close_within e x y"
  by (cases x; cases y) simp_all

lemma mat_close_mono: "mat_close d A B \<Longrightarrow> d \<le> e \<Longrightarrow> mat_close e A B"
  unfolding mat_close_def by (erule list_all2_mono) (rule close_within_mono)

lemma model_matrix_close:
  assumes "\<bar>a - (b - 2 * pi)\<bar> \<le> d"
  shows "mat_close (d + 1 / 8388608) (model_matrix_spec (Num a)) (model_matrix_spec (Num b))"
proof -
  obtain c1 s1 where e1: "model_matrix_spec (Num a) =
           [Num c1, Num s1, Num 0, Num 0, Num (- s1), Num c1, Num 0, Num 0,
            Num 0, Num 0, Num 1, Num 0, Num 0, Num 0, Num 0, Num 1]"
    and c1: "\<bar>c1 - cos a\<bar> \<le> 1 / 16777216" and s1: "\<bar>s1 - sin a\<bar> \<le> 1 / 16777216"
    using model_matrix_entries [of a] by blast
  obtain c2 s2 where e2: "model_matrix_spec (Num b) =
           [Num c2, Num s2, Num 0, Num 0, Num (- s2), Num c2, Num 0, Num 0,
            Num 0, Num 0, Num 1, Num 0, Num 0, Num 0, Num 0, Num 1]"
    and c2: "\<bar>c2 - cos b\<bar> \<le> 1 / 16777216" and s2: "\<bar>s2 - sin b\<bar> \<le> 1 / 16777216"
    using model_matrix_entries [of b] by blast
  have d0: "0 \<le> d" using assms by linarith
  have pc: "cos b = cos (b - 2 * pi)"
    using cos_periodic [of "b - 2 * pi"] by simp
  have ps: "sin b = sin (b - 2 * pi)"
    using sin_periodic [of "b - 2 * pi"] by simp
  have "\<bar>cos a - cos b\<bar> \<le> d"
    unfolding pc using cos_lipschitz [of a "b - 2 * pi"] assms by linarith
  with c1 c2 have c: "\<bar>c1 - c2\<bar> \<le> d + 1 / 8388608"
    by linarith
  have "\<bar>sin a - sin b\<bar> \<le> d"
    unfolding ps using sin_lipschitz [of a "b - 2 * pi"] assms by linarith
  with s1 s2 have s: "\<bar>s1 - s2\<bar> \<le> d + 1 / 8388608"
    by linarith
  from s have s': "\<bar>s2 - s1\<bar> \<le> d + 1 / 8388608" by linarith
  show ?thesis
    using c s s' d0 by (simp add: mat_close_def e1 e2)
qed


subsection \<open>The loop and main\<close>

lemma poll_keeps_close_flag:
  "shouldClose w \<Longrightarrow> shouldClose (glfwPollEvents w evs)"
proof (induction evs arbitrary: w)
  case Nil
  then show ?case by (simp add: glfwPollEvents_def)
next
  case (Cons ev evs)
  have "shouldClose (dispatch w ev)"
    using Cons.prems
    by (cases ev) (simp_all add: key_callback_def glfwSetWindowShouldClose_def GLFW_TRUE_def)
  then have "shouldClose (glfwPollEvents (dispatch w ev) evs)"
    by (rule Cons.IH)
  then show ?case by (simp add: glfwPollEvents_def)
qed

lemma run_loop_closed:
  "shouldClose w \<Longrightarrow> run_loop L env w inps = (True, [GlfwWindowShouldClose])"
  by (cases inps) (simp_all add: glfwWindowShouldClose_def)

lemma run_loop_calls:
  "snd (run_loop L env w inps) =
     concat (map (\<lambda>inp. GlfwWindowShouldClose # frame L env inp) (take (iterations w inps) inps))
       @ [GlfwWindowShouldClose]"
proof (induction inps arbitrary: w)
  case Nil
  show ?case by simp
next
  case (Cons inp rest)
  show ?case
    using Cons.IH [of "glfwPollEvents w (events inp)"]
    by (simp add: split_beta)
qed

lemma run_loop_extend:
  "fst (run_loop L env w pre) \<Longrightarrow> run_loop L env w (pre @ post) = run_loop L env w pre"
proof (induction pre arbitrary: w)
  case Nil
  then show ?case by (simp add: run_loop_closed glfwWindowShouldClose_def)
next
  case (Cons inp rest)
  show ?case
  proof (cases "glfwWindowShouldClose w")
    case True
    then show ?thesis by simp
  next
    case False
    with Cons.prems have "fst (run_loop L env (glfwPollEvents w (events inp)) rest)"
      by (simp add: split_beta)
    then have "run_loop L env (glfwPollEvents w (events inp)) (rest @ post)
               = run_loop L env (glfwPollEvents w (events inp)) rest"
      by (rule Cons.IH)
    with False show ?thesis by simp
  qed
qed

lemma frame_env_cong:
  "program e1 = program e2 \<Longrightarrow> mvp_location e1 = mvp_location e2 \<Longrightarrow>
   vertex_array e1 = vertex_array e2 \<Longrightarrow> frame L e1 inp = frame L e2 inp"
  by (simp add: frame_def)

lemma run_loop_env_cong:
  "program e1 = program e2 \<Longrightarrow> mvp_location e1 = mvp_location e2 \<Longrightarrow>
   vertex_array e1 = vertex_array e2 \<Longrightarrow> run_loop L e1 w inps = run_loop L e2 w inps"
proof (induction inps arbitrary: w)
  case Nil
  show ?case by simp
next
  case (Cons inp rest)
  have "frame L e1 inp = frame L e2 inp"
    using Cons.prems by (rule frame_env_cong)
  moreover have "run_loop L e1 (glfwPollEvents w (events inp)) rest
      = run_loop L e2 (glfwPollEvents w (events inp)) rest"
    using Cons.prems by (rule Cons.IH)
  ultimately show ?case by simp
qed

lemma gl_setup_status:
  "gl_setup ly (env \<lparr> vertex_compiled := vc, fragment_compiled := fc, program_linked := pl \<rparr>)
     = gl_setup ly env"
  by (simp add: gl_setup_def)

lemma link_not_in_startup: "GlLinkProgram p \<notin> set startup"
  by (simp add: startup_def)

lemma length_prologue: "length (startup @ gl_setup ly env :: 'm call list) = 32"
  by (simp add: startup_def gl_setup_def)

lemma calls_of_main:
  "glfwInit_result env \<noteq> 0 \<Longrightarrow> glfwCreateWindow_result env = Some w \<Longrightarrow>
   calls_of (main L ly env) =
     startup @ gl_setup ly env @ snd (run_loop L env w (frames env))
       @ (if fst (run_loop L env w (frames env)) then teardown else [])"
  by (simp add: main_def split_beta)

text \<open>The exit status of a run: failure exactly for the two checked library results.\<close>

lemma exit_status_main:
  "exit_status (main L ly env) =
     (if glfwInit_result env = 0 then Some EXIT_FAILURE
      else case glfwCreateWindow_result env of
             None \<Rightarrow> Some EXIT_FAILURE
           | Some w \<Rightarrow> if fst (run_loop L env w (frames env)) then Some EXIT_SUCCESS else None)"
  by (simp add: main_def split_beta split: option.split)

lemma main_extend:
  assumes i: "glfwInit_result env \<noteq> 0" and c: "glfwCreateWindow_result env = Some w0"
    and e: "fst (run_loop L env w0 (frames env))"
  shows "main L ly (env \<lparr> frames := frames env @ post \<rparr>) = main L ly env"
    and "exit_status (main L ly env) = Some EXIT_SUCCESS"
proof -
  have r: "run_loop L (env \<lparr> frames := frames env @ post \<rparr>) w0 (frames env @ post)
      = run_loop L env w0 (frames env)"
    using run_loop_env_cong [of "env \<lparr> frames := frames env @ post \<rparr>" env L w0
        "frames env @ post"] run_loop_extend [OF e, of post]
    by simp
  have g: "gl_setup ly (env \<lparr> frames := frames env @ post \<rparr>) = gl_setup ly env"
    by (simp add: gl_setup_def)
  show "main L ly (env \<lparr> frames := frames env @ post \<rparr>) = main L ly env"
    using i c by (simp add: main_def r g split_beta)
  show "exit_status (main L ly env) = Some EXIT_SUCCESS"
    using i c e by (simp add: exit_status_main)
qed

lemma uploads_frame:
  "filter is_upload (frame L env inp) =
    [GlUniformMatrix4fv (mvp_location env) 1 False
       (mat4x4_mul L
          (mat4x4_ortho L
             (fneg (fdiv (round_binary32 (real_of_int (fb_width inp)))
                      (round_binary32 (real_of_int (fb_height inp)))))
             (fdiv (round_binary32 (real_of_int (fb_width inp)))
                (round_binary32 (real_of_int (fb_height inp))))
             (Num (- 1)) (Num 1) (Num 1) (Num (- 1)))
          (mat4x4_rotate_Z L (mat4x4_identity L) (round_binary32 (time inp))))]"
  by (simp add: frame_def Let_def aspect_ratio_def float_of_int_def float_of_double_def)

lemma uploads_run_loop:
  "filter is_upload (snd (run_loop L env w inps)) =
     map (\<lambda>inp. GlUniformMatrix4fv (mvp_location env) 1 False
       (mat4x4_mul L
          (mat4x4_ortho L
             (fneg (fdiv (round_binary32 (real_of_int (fb_width inp)))
                      (round_binary32 (real_of_int (fb_height inp)))))
             (fdiv (round_binary32 (real_of_int (fb_width inp)))
                (round_binary32 (real_of_int (fb_height inp))))
             (Num (- 1)) (Num 1) (Num 1) (Num (- 1)))
          (mat4x4_rotate_Z L (mat4x4_identity L) (round_binary32 (time inp)))))
     (take (iterations w inps) inps)"
proof (induction inps arbitrary: w)
  case Nil
  show ?case by simp
next
  case (Cons inp rest)
  show ?case
    using Cons.IH [of "glfwPollEvents w (events inp)"]
    by (simp add: split_beta uploads_frame)
qed

lemma uploads_startup: "filter is_upload startup = []"
  by (simp add: startup_def)

lemma uploads_gl_setup: "filter is_upload (gl_setup ly env) = []"
  by (simp add: gl_setup_def)

lemma uploads_teardown: "filter is_upload teardown = []"
  by (simp add: teardown_def)

lemma attrib_pointers_frame: "filter is_attrib_pointer (frame L env inp) = []"
  by (simp add: frame_def Let_def)

lemma attrib_pointers_run_loop: "filter is_attrib_pointer (snd (run_loop L env w inps)) = []"
proof (induction inps arbitrary: w)
  case Nil
  show ?case by simp
next
  case (Cons inp rest)
  show ?case
    using Cons.IH [of "glfwPollEvents w (events inp)"]
    by (simp add: split_beta attrib_pointers_frame)
qed

lemma attrib_pointers_startup: "filter is_attrib_pointer startup = []"
  by (simp add: startup_def)

lemma attrib_pointers_teardown: "filter is_attrib_pointer teardown = []"
  by (simp add: teardown_def)

lemma attrib_pointers_gl_setup:
  "filter is_attrib_pointer (gl_setup ly env) =
     [GlVertexAttribPointer (to_GLuint (vpos_location env)) 2 GL_FLOAT False
        (sizeof_Vertex ly) (offsetof_Vertex_pos ly),
      GlVertexAttribPointer (to_GLuint (vcol_location env)) 3 GL_FLOAT False
        (sizeof_Vertex ly) (offsetof_Vertex_col ly)]"
  by (simp add: gl_setup_def)


section \<open>Claims\<close>

text \<open>
  C2. For every invocation of the key callback: if the key is Escape and the action is a
  press, the close flag of the window is true afterwards; for every other combination of
  key and action the window, and so its close flag, is left as it was.
\<close>

theorem key_callback_close_flag:
  "(key = GLFW_KEY_ESCAPE \<and> action = GLFW_PRESS \<longrightarrow>
      shouldClose (key_callback w key scancode action mods) = True) \<and>
   (\<not> (key = GLFW_KEY_ESCAPE \<and> action = GLFW_PRESS) \<longrightarrow>
      key_callback w key scancode action mods = w)"
  by (simp add: key_callback_def glfwSetWindowShouldClose_def GLFW_TRUE_def)

theorem key_callback_close_flag_witness:
  "shouldClose (key_callback \<lparr> shouldClose = False \<rparr> 256 1 1 0) = True \<and>
   key_callback \<lparr> shouldClose = False \<rparr> 256 1 0 0 = \<lparr> shouldClose = False \<rparr> \<and>
   key_callback \<lparr> shouldClose = False \<rparr> 65 0 1 0 = \<lparr> shouldClose = False \<rparr>"
  using key_callback_close_flag [of 256 1 "\<lparr> shouldClose = False \<rparr>" 1 0]
        key_callback_close_flag [of 256 0 "\<lparr> shouldClose = False \<rparr>" 1 0]
        key_callback_close_flag [of 65 1 "\<lparr> shouldClose = False \<rparr>" 0 0]
  by (simp add: GLFW_KEY_ESCAPE_def GLFW_PRESS_def)


text \<open>
  C1. The claim: in every iteration the aspect ratio is computed without a division by
  zero, a frame with a framebuffer height of 0 being clamped or skipped. The loop body
  has no such guard. At the framebuffer size 0 by 0 of a minimised window the divisor is
  zero and the ratio is a NaN, at 640 by 0 it is an infinity; the frame is not skipped:
  the projection is built from that ratio, uploaded, and the triangle is drawn.
\<close>

theorem zero_height_frame:
  "aspect_ratio 0 0 = NaN \<and> aspect_ratio 640 0 = PInf \<and>
   \<not> is_finite (aspect_ratio 0 0) \<and> \<not> is_finite (aspect_ratio 640 0) \<and>
   frame symbolic env0 \<lparr> fb_width = 0, fb_height = 0, time = 0, events = [] \<rparr> =
     [GlfwGetFramebufferSize,
      GlViewport 0 0 0 0,
      GlClear GL_COLOR_BUFFER_BIT,
      GlfwGetTime,
      GlUseProgram 3,
      GlUniformMatrix4fv 0 1 False
        (Mul (Ortho NaN NaN (Num (- 1)) (Num 1) (Num 1) (Num (- 1))) (Rotate_Z Identity (Num 0))),
      GlBindVertexArray 1,
      GlDrawArrays GL_TRIANGLES 0 3,
      GlfwSwapBuffers,
      GlfwPollEvents]"
  by (simp add: aspect_ratio_def float_of_int_def float_of_double_def frame_def Let_def
      symbolic_def env0_def round_binary32_640)

text \<open>
  C3. The claim: the exit status is 0 exactly on a clean shutdown and nonzero whenever an
  initialisation step fails, the loading of the graphics functions included. The result
  of \<^verbatim>\<open>gladLoadGL\<close> is not read: in a run where it reports failure (0) and Escape is
  pressed in the first iteration, the program reaches the render loop, draws, and exits
  with status 0.
\<close>

theorem loader_failure_exits_success:
  "gladLoadGL_result (env_esc \<lparr> gladLoadGL_result := 0 \<rparr>) = 0 \<and>
   exit_status (main symbolic std_layout (env_esc \<lparr> gladLoadGL_result := 0 \<rparr>)) = Some 0 \<and>
   GlDrawArrays GL_TRIANGLES 0 3 \<in>
     set (calls_of (main symbolic std_layout (env_esc \<lparr> gladLoadGL_result := 0 \<rparr>)))"
  by (simp add: main_def env_esc_def env0_def frame0_def escape_press_def new_window_def
      glfwWindowShouldClose_def glfwPollEvents_def key_callback_def
      glfwSetWindowShouldClose_def GLFW_TRUE_def EXIT_SUCCESS_def frame_def Let_def)

text \<open>
  C4, as stated, fails: in a run where the vertex shader does not compile and the program
  does not link, the process does not stop with a nonzero status; it enters the render
  loop, draws, and exits with status 0 when Escape is pressed.
\<close>

theorem shader_failure_counterexample:
  "\<not> vertex_compiled (env_esc \<lparr> vertex_compiled := False, program_linked := False \<rparr>) \<and>
   \<not> program_linked (env_esc \<lparr> vertex_compiled := False, program_linked := False \<rparr>) \<and>
   exit_status (main symbolic std_layout
     (env_esc \<lparr> vertex_compiled := False, program_linked := False \<rparr>)) = Some 0 \<and>
   GlDrawArrays GL_TRIANGLES 0 3 \<in> set (calls_of (main symbolic std_layout
     (env_esc \<lparr> vertex_compiled := False, program_linked := False \<rparr>)))"
  by (simp add: main_def env_esc_def env0_def frame0_def escape_press_def new_window_def
      glfwWindowShouldClose_def glfwPollEvents_def key_callback_def
      glfwSetWindowShouldClose_def GLFW_TRUE_def EXIT_SUCCESS_def frame_def Let_def)

text \<open>
  C4, amended. The program does not examine the outcome of shader compilation or of
  program linking: whatever the three outcomes are, the run is the one after success, and
  every run that has reached the linking of the program and has exited has gone through
  the render loop and has exited with the success status.
\<close>

theorem shader_status_not_examined:
  "main L ly (env \<lparr> vertex_compiled := vc, fragment_compiled := fc, program_linked := pl \<rparr>)
     = main L ly env \<and>
   (main L ly env = Exited st cs \<and> GlLinkProgram (program env) \<in> set cs \<longrightarrow>
      st = EXIT_SUCCESS \<and> GlfwWindowShouldClose \<in> set cs)"
proof
  have "run_loop L (env \<lparr> vertex_compiled := vc, fragment_compiled := fc,
            program_linked := pl \<rparr>) w inps = run_loop L env w inps" for w inps
    by (rule run_loop_env_cong) simp_all
  then show "main L ly (env \<lparr> vertex_compiled := vc, fragment_compiled := fc,
      program_linked := pl \<rparr>) = main L ly env"
    by (simp add: main_def gl_setup_status split_beta split: option.split)
next
  show "main L ly env = Exited st cs \<and> GlLinkProgram (program env) \<in> set cs \<longrightarrow>
      st = EXIT_SUCCESS \<and> GlfwWindowShouldClose \<in> set cs"
  proof (intro impI, elim conjE)
    assume m: "main L ly env = Exited st cs" and l: "GlLinkProgram (program env) \<in> set cs"
    show "st = EXIT_SUCCESS \<and> GlfwWindowShouldClose \<in> set cs"
    proof (cases "glfwInit_result env = 0")
      case True
      with m l show ?thesis by (auto simp add: main_def)
    next
      case False
      show ?thesis
      proof (cases "glfwCreateWindow_result env")
        case None
        with False m l show ?thesis
          by (auto simp add: main_def link_not_in_startup)
      next
        case (Some w)
        with False m show ?thesis
          by (auto simp add: main_def split_beta run_loop_calls split: if_splits)
      qed
    qed
  qed
qed

text \<open>C4, amended, at the run in which Escape is pressed in the first iteration.\<close>

theorem shader_status_not_examined_witness:
  "main symbolic std_layout (env_esc \<lparr> vertex_compiled := False, fragment_compiled := True,
       program_linked := False \<rparr>) = main symbolic std_layout env_esc \<and>
   exit_status (main symbolic std_layout env_esc) = Some EXIT_SUCCESS \<and>
   GlLinkProgram 3 \<in> set (calls_of (main symbolic std_layout env_esc))"
proof -
  have m: "main symbolic std_layout env_esc =
      Exited EXIT_SUCCESS (calls_of (main symbolic std_layout env_esc))"
    by (simp add: main_def env_esc_def env0_def frame0_def escape_press_def new_window_def
        glfwWindowShouldClose_def glfwPollEvents_def key_callback_def
        glfwSetWindowShouldClose_def GLFW_TRUE_def)
  have l: "GlLinkProgram (program env_esc) \<in> set (calls_of (main symbolic std_layout env_esc))"
    by (simp add: main_def env_esc_def env0_def frame0_def escape_press_def new_window_def
        glfwWindowShouldClose_def glfwPollEvents_def key_callback_def
        glfwSetWindowShouldClose_def GLFW_TRUE_def gl_setup_def)
  have p: "program env_esc = 3"
    by (simp add: env_esc_def env0_def)
  from shader_status_not_examined [where L = symbolic and ly = std_layout and env = env_esc
      and vc = False and fc = True and pl = False and st = EXIT_SUCCESS
      and cs = "calls_of (main symbolic std_layout env_esc)"] m l p
  show ?thesis by (metis exit_status.simps(1))
qed

text \<open>
  C5. In a run that reaches the loop, the calls that upload a matrix uniform are, in
  order, one per iteration made; the call of an iteration uploads to the location of MVP,
  untransposed, the product of the projection and the model matrix, where the projection
  is built from the binary32 quotient of the width and height queried in that iteration
  and the model matrix from the binary32 value of the time queried in that iteration.
\<close>

theorem mvp_recomputed_every_frame:
  assumes "glfwInit_result env \<noteq> 0" and "glfwCreateWindow_result env = Some w"
  shows "filter is_upload (calls_of (main L ly env)) =
     map (\<lambda>inp. GlUniformMatrix4fv (mvp_location env) 1 False
       (mat4x4_mul L
          (mat4x4_ortho L
             (fneg (fdiv (round_binary32 (real_of_int (fb_width inp)))
                      (round_binary32 (real_of_int (fb_height inp)))))
             (fdiv (round_binary32 (real_of_int (fb_width inp)))
                (round_binary32 (real_of_int (fb_height inp))))
             (Num (- 1)) (Num 1) (Num 1) (Num (- 1)))
          (mat4x4_rotate_Z L (mat4x4_identity L) (round_binary32 (time inp)))))
     (take (iterations w (frames env)) (frames env))"
  by (simp add: calls_of_main [OF assms] uploads_startup uploads_gl_setup
      uploads_teardown uploads_run_loop)

text \<open>
  C5 at a run of two iterations: 640 by 480 at time 0, then 1280 by 720 at the double
  nearest to 0.1, where Escape is pressed. The two uploads differ in both factors.
\<close>

theorem mvp_recomputed_every_frame_witness:
  "glfwInit_result env2 \<noteq> 0 \<and> glfwCreateWindow_result env2 = Some new_window \<and>
   iterations new_window (frames env2) = 2 \<and>
   filter is_upload (calls_of (main symbolic std_layout env2)) =
     [GlUniformMatrix4fv 0 1 False
        (Mul (Ortho (Num (- (11184811 / 8388608))) (Num (11184811 / 8388608))
                (Num (- 1)) (Num 1) (Num 1) (Num (- 1)))
           (Rotate_Z Identity (Num 0))),
      GlUniformMatrix4fv 0 1 False
        (Mul (Ortho (Num (- (14913081 / 8388608))) (Num (14913081 / 8388608))
                (Num (- 1)) (Num 1) (Num 1) (Num (- 1)))
           (Rotate_Z Identity (Num (13421773 / 134217728))))]"
proof -
  have i: "glfwInit_result env2 \<noteq> 0"
    by (simp add: env2_def env0_def)
  have c: "glfwCreateWindow_result env2 = Some new_window"
    by (simp add: env2_def env0_def)
  have f: "frames env2 = [frame0, frame1]"
    by (simp add: env2_def env0_def)
  have n: "iterations new_window (frames env2) = 2"
    by (simp add: f new_window_def glfwWindowShouldClose_def frame0_def glfwPollEvents_def)
  have l: "mvp_location env2 = 0"
    by (simp add: env2_def env0_def)
  have q: "(640::real) / 480 = 4 / 3" "(1280::real) / 720 = 16 / 9"
    by simp_all
  have n': "iterations new_window [frame0, frame1] = 2"
    using n by (simp only: f)
  note th = mvp_recomputed_every_frame [OF i c, of symbolic std_layout, unfolded f n' l]
  from th
  have "filter is_upload (calls_of (main symbolic std_layout env2)) =
     [GlUniformMatrix4fv 0 1 False
        (Mul (Ortho (Num (- (11184811 / 8388608))) (Num (11184811 / 8388608))
                (Num (- 1)) (Num 1) (Num 1) (Num (- 1)))
           (Rotate_Z Identity (Num 0))),
      GlUniformMatrix4fv 0 1 False
        (Mul (Ortho (Num (- (14913081 / 8388608))) (Num (14913081 / 8388608))
                (Num (- 1)) (Num 1) (Num 1) (Num (- 1)))
           (Rotate_Z Identity (Num (13421773 / 134217728))))]"
    by (simp add: frame0_def frame1_def symbolic_def round_binary32_640 round_binary32_480
        round_binary32_1280 round_binary32_720 q round_binary32_4_3 round_binary32_16_9
        round_binary32_tenth)
  with i c n show ?thesis by blast
qed

text \<open>
  C6. For every framebuffer size of C \<^verbatim>\<open>int\<close> range with a height above 0: width and
  height convert to finite floats \<open>a\<close> and \<open>b\<close>, exactly so up to \<open>2 ^ 24\<close>, with
  \<open>b\<close> positive; the aspect ratio is the finite float \<open>r\<close> that is the binary32
  quotient of \<open>a\<close> and \<open>b\<close> (not an integer quotient); and the matrix uploaded in that
  iteration is built from the orthographic projection with left \<open>- r\<close>, right \<open>r\<close>,
  bottom \<open>-1\<close>, top \<open>1\<close>, near \<open>1\<close> and far \<open>-1\<close>.
\<close>

theorem aspect_ratio_and_projection:
  assumes "0 < fb_height inp" and "fb_height inp < 2 ^ 31"
    and "- (2 ^ 31) \<le> fb_width inp" and "fb_width inp < 2 ^ 31"
  shows "\<exists>a b r.
      round_binary32 (real_of_int (fb_width inp)) = Num a \<and>
      round_binary32 (real_of_int (fb_height inp)) = Num b \<and>
      0 < b \<and>
      (\<bar>fb_width inp\<bar> \<le> 2 ^ 24 \<longrightarrow> a = real_of_int (fb_width inp)) \<and>
      (fb_height inp \<le> 2 ^ 24 \<longrightarrow> b = real_of_int (fb_height inp)) \<and>
      round_binary32 (a / b) = Num r \<and>
      aspect_ratio (fb_width inp) (fb_height inp) = Num r \<and>
      frame L env inp ! 5 =
        GlUniformMatrix4fv (mvp_location env) 1 False
          (mat4x4_mul L
             (mat4x4_ortho L (Num (- r)) (Num r) (Num (- 1)) (Num 1) (Num 1) (Num (- 1)))
             (mat4x4_rotate_Z L (mat4x4_identity L) (round_binary32 (time inp))))"
proof -
  define w :: real where "w = real_of_int (fb_width inp)"
  define h :: real where "h = real_of_int (fb_height inp)"
  have h1: "1 \<le> h"
    using assms(1) by (simp add: h_def)
  have "fb_height inp \<le> 2 ^ 31" using assms(2) by simp
  then have "h \<le> of_int (2 ^ 31)" unfolding h_def by (subst of_int_le_iff)
  then have h2: "h \<le> 2 ^ 31" by simp
  then have "h < 2 ^ 127" by simp
  with h1 obtain b where b: "round_binary32 h = Num b" "0 < b" "\<bar>b - h\<bar> \<le> h / 2 ^ 24"
    using round_binary32_pos by blast
  have "\<bar>fb_width inp\<bar> \<le> 2 ^ 31" using assms(3,4) by simp
  then have "of_int \<bar>fb_width inp\<bar> \<le> (of_int (2 ^ 31) :: real)" by (subst of_int_le_iff)
  then have w2: "\<bar>w\<bar> \<le> 2 ^ 31" by (simp add: w_def)
  then have "\<bar>w\<bar> < 2 powi 32" by simp
  then obtain a where a: "round_binary32 w = Num a" "\<bar>a - w\<bar> \<le> 2 powi (32 - 25)"
    using round_binary32_abs_error [of w 32] by auto
  have a2: "\<bar>a\<bar> \<le> 2 ^ 32" using a(2) w2 by simp
  have "h / 2 ^ 24 \<le> h / 2" using h1 by (simp add: field_simps)
  with b(3) h1 have b2: "1 / 2 \<le> b" by linarith
  have "\<bar>a / b\<bar> = \<bar>a\<bar> / b" using b(2) by simp
  also have "\<dots> \<le> 2 ^ 32 / b"
    using a2 b(2) by (intro divide_right_mono) simp_all
  also have "\<dots> \<le> 2 ^ 32 / (1 / 2)"
    using b2 by (intro divide_left_mono) simp_all
  finally have "\<bar>a / b\<bar> < 2 powi 34" by simp
  then obtain r where r: "round_binary32 (a / b) = Num r"
    using round_binary32_abs_error [of "a / b" 34] by auto
  have ea: "\<bar>fb_width inp\<bar> \<le> 2 ^ 24 \<longrightarrow> a = w"
    using round_binary32_of_int [of "fb_width inp"] a(1) by (auto simp add: w_def)
  have eb: "fb_height inp \<le> 2 ^ 24 \<longrightarrow> b = h"
    using round_binary32_of_int [of "fb_height inp"] b(1) assms(1) by (auto simp add: h_def)
  have ar: "aspect_ratio (fb_width inp) (fb_height inp) = Num r"
    using a(1) b(1) b(2) r by (simp add: aspect_ratio_def float_of_int_def w_def h_def)
  have fr: "frame L env inp ! 5 =
        GlUniformMatrix4fv (mvp_location env) 1 False
          (mat4x4_mul L
             (mat4x4_ortho L (Num (- r)) (Num r) (Num (- 1)) (Num 1) (Num 1) (Num (- 1)))
             (mat4x4_rotate_Z L (mat4x4_identity L) (round_binary32 (time inp))))"
    by (simp add: frame_def Let_def ar float_of_double_def)
  from a(1) b(1) b(2) ea eb r ar fr show ?thesis
    unfolding w_def h_def by blast
qed

text \<open>
  C6 at the framebuffer 1280 by 720 and the double nearest to 0.1 as the time: the ratio
  is the binary32 value nearest to 16/9.
\<close>

theorem aspect_ratio_and_projection_witness:
  "0 < fb_height frame1 \<and> fb_height frame1 < 2 ^ 31 \<and>
   - (2 ^ 31) \<le> fb_width frame1 \<and> fb_width frame1 < 2 ^ 31 \<and>
   aspect_ratio 1280 720 = Num (14913081 / 8388608) \<and>
   frame symbolic env0 frame1 ! 5 =
     GlUniformMatrix4fv 0 1 False
       (Mul (Ortho (Num (- (14913081 / 8388608))) (Num (14913081 / 8388608))
               (Num (- 1)) (Num 1) (Num 1) (Num (- 1)))
          (Rotate_Z Identity (Num (13421773 / 134217728))))"
proof -
  have h: "0 < fb_height frame1" "fb_height frame1 < 2 ^ 31"
    "- (2 ^ 31) \<le> fb_width frame1" "fb_width frame1 < 2 ^ 31"
    by (simp_all add: frame1_def)
  have v: "fb_width frame1 = 1280" "fb_height frame1 = 720"
    "time frame1 = 3602879701896397 / 36028797018963968"
    by (simp_all add: frame1_def)
  from aspect_ratio_and_projection [OF h, of symbolic env0]
  obtain a b r where
    a: "\<bar>fb_width frame1\<bar> \<le> 2 ^ 24 \<longrightarrow> a = real_of_int (fb_width frame1)" and
    b: "fb_height frame1 \<le> 2 ^ 24 \<longrightarrow> b = real_of_int (fb_height frame1)" and
    r: "round_binary32 (a / b) = Num r" and
    ar: "aspect_ratio (fb_width frame1) (fb_height frame1) = Num r" and
    fr: "frame symbolic env0 frame1 ! 5 =
        GlUniformMatrix4fv (mvp_location env0) 1 False
          (mat4x4_mul symbolic
             (mat4x4_ortho symbolic (Num (- r)) (Num r) (Num (- 1)) (Num 1) (Num 1) (Num (- 1)))
             (mat4x4_rotate_Z symbolic (mat4x4_identity symbolic)
                (round_binary32 (time frame1))))"
    by blast
  have "a = 1280" "b = 720" using a b by (simp_all add: v)
  then have "round_binary32 (16 / 9) = Num r" using r by simp
  then have rv: "r = 14913081 / 8388608" by (simp add: round_binary32_16_9)
  have l: "mvp_location env0 = 0" by (simp add: env0_def)
  from ar have 1: "aspect_ratio 1280 720 = Num (14913081 / 8388608)"
    by (simp add: v rv)
  from fr have 2: "frame symbolic env0 frame1 ! 5 =
     GlUniformMatrix4fv 0 1 False
       (Mul (Ortho (Num (- (14913081 / 8388608))) (Num (14913081 / 8388608))
               (Num (- 1)) (Num 1) (Num 1) (Num (- 1)))
          (Rotate_Z Identity (Num (13421773 / 134217728))))"
    by (simp add: v rv l symbolic_def round_binary32_tenth)
  from h 1 2 show ?thesis by blast
qed

text \<open>
  C7, as stated, fails. With the time \<open>2 ^ 25\<close> seconds the cast to \<^verbatim>\<open>float\<close> gives the
  angle 33554432, and with the time \<open>2 ^ 25 + 2 * pi\<close> it gives 33554440, which is 8 and
  not \<open>2 * pi\<close> further: the two model matrices do not agree within the tolerance 1/2,
  let alone within a floating-point tolerance.
\<close>

theorem period_counterexample:
  "\<not> mat_close (1 / 2) (model_matrix_at (2 ^ 25)) (model_matrix_at (2 ^ 25 + 2 * pi))"
proof
  assume m: "mat_close (1 / 2) (model_matrix_at (2 ^ 25)) (model_matrix_at (2 ^ 25 + 2 * pi))"
  obtain c1 s1 where e1: "model_matrix_spec (Num (2 ^ 25)) =
           [Num c1, Num s1, Num 0, Num 0, Num (- s1), Num c1, Num 0, Num 0,
            Num 0, Num 0, Num 1, Num 0, Num 0, Num 0, Num 0, Num 1]"
    and c1: "\<bar>c1 - cos (2 ^ 25)\<bar> \<le> 1 / 16777216" and s1: "\<bar>s1 - sin (2 ^ 25)\<bar> \<le> 1 / 16777216"
    using model_matrix_entries [of "2 ^ 25"] by blast
  obtain c2 s2 where e2: "model_matrix_spec (Num (2 ^ 25 + 8)) =
           [Num c2, Num s2, Num 0, Num 0, Num (- s2), Num c2, Num 0, Num 0,
            Num 0, Num 0, Num 1, Num 0, Num 0, Num 0, Num 0, Num 1]"
    and c2: "\<bar>c2 - cos (2 ^ 25 + 8)\<bar> \<le> 1 / 16777216" and s2: "\<bar>s2 - sin (2 ^ 25 + 8)\<bar> \<le> 1 / 16777216"
    using model_matrix_entries [of "2 ^ 25 + 8"] by blast
  have e1': "model_matrix_at (2 ^ 25) =
           [Num c1, Num s1, Num 0, Num 0, Num (- s1), Num c1, Num 0, Num 0,
            Num 0, Num 0, Num 1, Num 0, Num 0, Num 0, Num 0, Num 1]"
    using e1 by (simp add: model_matrix_at_def float_of_double_def round_binary32_2_25)
  have e2': "model_matrix_at (2 ^ 25 + 2 * pi) =
           [Num c2, Num s2, Num 0, Num 0, Num (- s2), Num c2, Num 0, Num 0,
            Num 0, Num 0, Num 1, Num 0, Num 0, Num 0, Num 0, Num 1]"
    using e2 by (simp add: model_matrix_at_def float_of_double_def round_binary32_2_25_2pi)
  from m have cl: "\<bar>c1 - c2\<bar> \<le> 1 / 2" "\<bar>s1 - s2\<bar> \<le> 1 / 2"
    unfolding e1' e2' by (simp_all add: mat_close_def)
  define dc where "dc = cos (2 ^ 25) - cos (2 ^ 25 + 8 :: real)"
  define ds where "ds = sin (2 ^ 25) - sin (2 ^ 25 + 8 :: real)"
  have "\<bar>dc\<bar> \<le> 51 / 100"
    using cl(1) c1 c2 unfolding dc_def by linarith
  then have "dc\<^sup>2 \<le> (51 / 100)\<^sup>2"
    by (intro abs_le_square_iff [THEN iffD1]) simp
  moreover have "\<bar>ds\<bar> \<le> 51 / 100"
    using cl(2) s1 s2 unfolding ds_def by linarith
  then have "ds\<^sup>2 \<le> (51 / 100)\<^sup>2"
    by (intro abs_le_square_iff [THEN iffD1]) simp
  ultimately have "dc\<^sup>2 + ds\<^sup>2 < 1"
    by (simp add: power2_eq_square)
  moreover have "dc\<^sup>2 + ds\<^sup>2 = 2 - 2 * cos (8::real)"
    unfolding dc_def ds_def chord by simp
  ultimately show False
    using cos_8_nonpos by simp
qed

text \<open>
  C7, amended. The model matrix is periodic in the elapsed time with period \<open>2 * pi\<close> up
  to the rounding of the cast of the time to \<^verbatim>\<open>float\<close>: when the times \<open>t\<close> and
  \<open>t + 2 * pi\<close> cast to the finite floats \<open>a\<close> and \<open>b\<close>, the two model matrices agree
  entry by entry within the two rounding errors of the casts plus \<open>2 ^ -23\<close>; for a time
  between 0 and 1000 seconds they agree within \<open>2 ^ -13\<close>.
\<close>

theorem period_up_to_cast:
  "(float_of_double t = Num a \<and> float_of_double (t + 2 * pi) = Num b \<longrightarrow>
      mat_close (\<bar>a - t\<bar> + \<bar>b - (t + 2 * pi)\<bar> + 1 / 2 ^ 23)
        (model_matrix_at t) (model_matrix_at (t + 2 * pi))) \<and>
   (0 \<le> t \<and> t \<le> 1000 \<longrightarrow>
      mat_close (1 / 2 ^ 13) (model_matrix_at t) (model_matrix_at (t + 2 * pi)))"
proof (intro conjI impI)
  assume h: "float_of_double t = Num a \<and> float_of_double (t + 2 * pi) = Num b"
  have "\<bar>a - (b - 2 * pi)\<bar> \<le> \<bar>a - t\<bar> + \<bar>b - (t + 2 * pi)\<bar>"
    by linarith
  then have "mat_close (\<bar>a - t\<bar> + \<bar>b - (t + 2 * pi)\<bar> + 1 / 8388608)
        (model_matrix_spec (Num a)) (model_matrix_spec (Num b))"
    by (rule model_matrix_close)
  then show "mat_close (\<bar>a - t\<bar> + \<bar>b - (t + 2 * pi)\<bar> + 1 / 2 ^ 23)
        (model_matrix_at t) (model_matrix_at (t + 2 * pi))"
    using h by (simp add: model_matrix_at_def)
next
  assume r: "0 \<le> t \<and> t \<le> 1000"
  have q: "(2::real) powi (10 - 25) = 1 / 32768"
    using power_int_minus_divide [of "2::real" 15] by simp
  have "\<bar>t\<bar> < 2 powi 10" using r by simp
  then obtain a where a: "round_binary32 t = Num a" "\<bar>a - t\<bar> \<le> 1 / 32768"
    using round_binary32_abs_error [of t 10] q by auto
  have "\<bar>t + 2 * pi\<bar> < 2 powi 10"
    using r pi_le_16_5 pi_ge_3 by simp
  then obtain b where b: "round_binary32 (t + 2 * pi) = Num b" "\<bar>b - (t + 2 * pi)\<bar> \<le> 1 / 32768"
    using round_binary32_abs_error [of "t + 2 * pi" 10] q by auto
  have "\<bar>a - (b - 2 * pi)\<bar> \<le> 1 / 16384"
    using a(2) b(2) by linarith
  then have "mat_close (1 / 16384 + 1 / 8388608) (model_matrix_spec (Num a)) (model_matrix_spec (Num b))"
    by (rule model_matrix_close)
  then have "mat_close (1 / 2 ^ 13) (model_matrix_spec (Num a)) (model_matrix_spec (Num b))"
    by (rule mat_close_mono) simp
  then show "mat_close (1 / 2 ^ 13) (model_matrix_at t) (model_matrix_at (t + 2 * pi))"
    by (simp add: model_matrix_at_def float_of_double_def a b)
qed

text \<open>
  C7, amended, at the time \<open>2 ^ 25\<close>, where the bound is \<open>8 - 2 * pi\<close> plus
  \<open>2 ^ -23\<close>, and at the time 1.
\<close>

theorem period_up_to_cast_witness:
  "float_of_double (2 ^ 25) = Num (2 ^ 25) \<and>
   float_of_double (2 ^ 25 + 2 * pi) = Num (2 ^ 25 + 8) \<and>
   mat_close (\<bar>2 ^ 25 - 2 ^ 25\<bar> + \<bar>2 ^ 25 + 8 - (2 ^ 25 + 2 * pi)\<bar> + 1 / 2 ^ 23)
     (model_matrix_at (2 ^ 25)) (model_matrix_at (2 ^ 25 + 2 * pi)) \<and>
   (0::real) \<le> 1 \<and> (1::real) \<le> 1000 \<and>
   mat_close (1 / 2 ^ 13) (model_matrix_at 1) (model_matrix_at (1 + 2 * pi))"
proof -
  have a: "float_of_double (2 ^ 25) = Num (2 ^ 25)"
    using round_binary32_2_25 by (simp add: float_of_double_def)
  have b: "float_of_double (2 ^ 25 + 2 * pi) = Num (2 ^ 25 + 8)"
    using round_binary32_2_25_2pi by (simp add: float_of_double_def)
  from period_up_to_cast [of "2 ^ 25" "2 ^ 25" "2 ^ 25 + 8"] a b
  have 1: "mat_close (\<bar>2 ^ 25 - 2 ^ 25\<bar> + \<bar>2 ^ 25 + 8 - (2 ^ 25 + 2 * pi)\<bar> + 1 / 2 ^ 23)
     (model_matrix_at (2 ^ 25)) (model_matrix_at (2 ^ 25 + 2 * pi))"
    by blast
  have r: "(0::real) \<le> 1 \<and> (1::real) \<le> 1000" by simp
  from period_up_to_cast [of 1 0 0] r
  have 2: "mat_close (1 / 2 ^ 13) (model_matrix_at 1) (model_matrix_at (1 + 2 * pi))"
    by blast
  from a b 1 2 r show ?thesis by blast
qed

text \<open>
  C8. In a run that reaches the set-up of the vertex array, the first 32 calls are the
  start-up and set-up calls; among them the attribute pointers are set exactly twice:
  the position attribute with 2 floats at the offset of \<^verbatim>\<open>pos\<close>, the colour attribute
  with 3 floats at the offset of \<^verbatim>\<open>col\<close>, both with the stride \<^verbatim>\<open>sizeof(Vertex)\<close>; and
  no later call, however many iterations the loop makes, sets an attribute pointer.
\<close>

theorem attribute_layout_fixed:
  fixes L :: "'m linmath"
  assumes "glfwInit_result env \<noteq> 0" and "glfwCreateWindow_result env = Some w"
  shows "take 32 (calls_of (main L ly env)) = startup @ gl_setup ly env \<and>
         filter is_attrib_pointer (take 32 (calls_of (main L ly env))) =
           [GlVertexAttribPointer (to_GLuint (vpos_location env)) 2 GL_FLOAT False
              (sizeof_Vertex ly) (offsetof_Vertex_pos ly),
            GlVertexAttribPointer (to_GLuint (vcol_location env)) 3 GL_FLOAT False
              (sizeof_Vertex ly) (offsetof_Vertex_col ly)] \<and>
         filter is_attrib_pointer (drop 32 (calls_of (main L ly env))) = []"
proof -
  have c: "calls_of (main L ly env) = (startup @ gl_setup ly env) @
      (snd (run_loop L env w (frames env))
       @ (if fst (run_loop L env w (frames env)) then teardown else []))"
    by (simp add: calls_of_main [OF assms])
  have t: "take 32 (calls_of (main L ly env)) = startup @ gl_setup ly env"
    unfolding c using length_prologue [of ly env, where 'm = 'm] by simp
  have d: "drop 32 (calls_of (main L ly env))
           = snd (run_loop L env w (frames env))
             @ (if fst (run_loop L env w (frames env)) then teardown else [])"
    unfolding c using length_prologue [of ly env, where 'm = 'm] by simp
  have f: "filter is_attrib_pointer (drop 32 (calls_of (main L ly env))) = []"
    unfolding d by (simp add: attrib_pointers_run_loop attrib_pointers_teardown)
  have s: "filter is_attrib_pointer (take 32 (calls_of (main L ly env))) =
           [GlVertexAttribPointer (to_GLuint (vpos_location env)) 2 GL_FLOAT False
              (sizeof_Vertex ly) (offsetof_Vertex_pos ly),
            GlVertexAttribPointer (to_GLuint (vcol_location env)) 3 GL_FLOAT False
              (sizeof_Vertex ly) (offsetof_Vertex_col ly)]"
    unfolding t by (simp add: attrib_pointers_startup attrib_pointers_gl_setup)
  from t s f show ?thesis by blast
qed

text \<open>C8 at the run in which Escape is pressed in the first iteration, with 4-byte
  floats: the stride is 20, the offsets are 0 and 8.\<close>

theorem attribute_layout_fixed_witness:
  "glfwInit_result env_esc \<noteq> 0 \<and> glfwCreateWindow_result env_esc = Some new_window \<and>
   filter is_attrib_pointer (take 32 (calls_of (main symbolic std_layout env_esc))) =
     [GlVertexAttribPointer 1 2 GL_FLOAT False 20 0,
      GlVertexAttribPointer 0 3 GL_FLOAT False 20 8] \<and>
   filter is_attrib_pointer (drop 32 (calls_of (main symbolic std_layout env_esc))) = []"
proof -
  have i: "glfwInit_result env_esc \<noteq> 0"
    by (simp add: env_esc_def env0_def)
  have c: "glfwCreateWindow_result env_esc = Some new_window"
    by (simp add: env_esc_def env0_def)
  have v: "to_GLuint (vpos_location env_esc) = 1" "to_GLuint (vcol_location env_esc) = 0"
    by (simp_all add: env_esc_def env0_def to_GLuint_def)
  have l: "sizeof_Vertex std_layout = 20" "offsetof_Vertex_pos std_layout = 0"
    "offsetof_Vertex_col std_layout = 8"
    by (simp_all add: std_layout_def)
  note th = attribute_layout_fixed [OF i c, of symbolic std_layout, unfolded v l]
  from i c th show ?thesis by blast
qed

text \<open>
  C9, as stated, fails: event polling is not the first call of an iteration and the
  swap of the framebuffer is not the last one.
\<close>

theorem poll_first_swap_last_counterexample:
  "\<not> (hd (frame symbolic env0 frame0) = GlfwPollEvents \<and>
      last (frame symbolic env0 frame0) = GlfwSwapBuffers)"
  by (simp add: frame_def Let_def)

text \<open>
  C9, amended. Each iteration makes ten calls in a fixed order: the framebuffer size is
  queried first, the draw call is followed by the swap of the framebuffer, and event
  polling comes last, after the swap. The close flag is read at the top of the next
  iteration, right after the poll: the calls of the loop are, for each iteration made,
  the reading of the flag followed by the calls of the iteration, and one last reading.
\<close>

theorem iteration_order:
  "length (frame L env inp) = 10 \<and>
   frame L env inp ! 0 = GlfwGetFramebufferSize \<and>
   frame L env inp ! 7 = GlDrawArrays GL_TRIANGLES 0 3 \<and>
   frame L env inp ! 8 = GlfwSwapBuffers \<and>
   frame L env inp ! 9 = GlfwPollEvents \<and>
   snd (run_loop L env w inps) =
     concat (map (\<lambda>inp. GlfwWindowShouldClose # frame L env inp)
               (take (iterations w inps) inps))
       @ [GlfwWindowShouldClose]"
  by (simp add: run_loop_calls) (simp add: frame_def Let_def)

text \<open>
  C10. The close flag is monotone: once it is set, the key callback leaves it set
  whatever the key and action, event polling leaves it set whatever the events, and the
  loop makes no further iteration: it reads the flag and ends. A loop that has ended on
  some inputs ends in the same way whatever inputs follow, and the run then exits with
  the success status whatever the libraries would have answered afterwards.
\<close>

theorem close_flag_monotone:
  "(shouldClose w \<longrightarrow>
      shouldClose (key_callback w key scancode action mods) \<and>
      shouldClose (glfwPollEvents w evs) \<and>
      run_loop L env w inps = (True, [GlfwWindowShouldClose])) \<and>
   (fst (run_loop L env w pre) \<longrightarrow>
      run_loop L env w (pre @ post) = run_loop L env w pre) \<and>
   (glfwInit_result env \<noteq> 0 \<and> glfwCreateWindow_result env = Some w0 \<and>
    fst (run_loop L env w0 (frames env)) \<longrightarrow>
      exit_status (main L ly env) = Some EXIT_SUCCESS \<and>
      main L ly (env \<lparr> frames := frames env @ post \<rparr>) = main L ly env)"
proof (intro conjI impI)
  assume c: "shouldClose w"
  then show "shouldClose (key_callback w key scancode action mods)"
    by (simp add: key_callback_def glfwSetWindowShouldClose_def GLFW_TRUE_def)
  from c show "shouldClose (glfwPollEvents w evs)"
    by (rule poll_keeps_close_flag)
  from c show "run_loop L env w inps = (True, [GlfwWindowShouldClose])"
    by (rule run_loop_closed)
next
  assume "fst (run_loop L env w pre)"
  then show "run_loop L env w (pre @ post) = run_loop L env w pre"
    by (rule run_loop_extend)
next
  assume a: "glfwInit_result env \<noteq> 0 \<and> glfwCreateWindow_result env = Some w0 \<and>
    fst (run_loop L env w0 (frames env))"
  then show "exit_status (main L ly env) = Some EXIT_SUCCESS"
    by (simp add: main_extend(2))
  from a show "main L ly (env \<lparr> frames := frames env @ post \<rparr>) = main L ly env"
    by (simp add: main_extend(1))
qed

text \<open>C10 at a window whose flag is set, and at the run ended by Escape.\<close>

theorem close_flag_monotone_witness:
  "shouldClose \<lparr> shouldClose = True \<rparr> \<and>
   shouldClose (key_callback \<lparr> shouldClose = True \<rparr> 65 0 0 0) \<and>
   shouldClose (glfwPollEvents \<lparr> shouldClose = True \<rparr> [Key_event 65 0 1 0, Key_event 65 0 0 0]) \<and>
   run_loop symbolic env0 \<lparr> shouldClose = True \<rparr> [frame0] = (True, [GlfwWindowShouldClose]) \<and>
   fst (run_loop symbolic env_esc new_window (frames env_esc)) \<and>
   run_loop symbolic env_esc new_window (frames env_esc @ [frame0])
     = run_loop symbolic env_esc new_window (frames env_esc) \<and>
   glfwInit_result env_esc \<noteq> 0 \<and> glfwCreateWindow_result env_esc = Some new_window \<and>
   exit_status (main symbolic std_layout env_esc) = Some EXIT_SUCCESS \<and>
   main symbolic std_layout (env_esc \<lparr> frames := frames env_esc @ [frame0] \<rparr>)
     = main symbolic std_layout env_esc"
proof -
  have a: "shouldClose \<lparr> shouldClose = True \<rparr>"
    by simp
  have b: "fst (run_loop symbolic env_esc new_window (frames env_esc))"
    by (simp add: env_esc_def env0_def new_window_def glfwWindowShouldClose_def frame0_def
        escape_press_def glfwPollEvents_def key_callback_def glfwSetWindowShouldClose_def
        GLFW_TRUE_def)
  have i: "glfwInit_result env_esc \<noteq> 0"
    by (simp add: env_esc_def env0_def)
  have c: "glfwCreateWindow_result env_esc = Some new_window"
    by (simp add: env_esc_def env0_def)
  from close_flag_monotone [where w = "\<lparr> shouldClose = True \<rparr>" and key = 65
      and scancode = 0 and action = 0 and mods = 0
      and evs = "[Key_event 65 0 1 0, Key_event 65 0 0 0]"
      and L = symbolic and env = env0 and inps = "[frame0]"] a
  have p1: "shouldClose (key_callback \<lparr> shouldClose = True \<rparr> 65 0 0 0) \<and>
   shouldClose (glfwPollEvents \<lparr> shouldClose = True \<rparr> [Key_event 65 0 1 0, Key_event 65 0 0 0]) \<and>
   run_loop symbolic env0 \<lparr> shouldClose = True \<rparr> [frame0] = (True, [GlfwWindowShouldClose])"
    by blast
  from close_flag_monotone [where L = symbolic and env = env_esc and w = new_window
      and pre = "frames env_esc" and post = "[frame0]" and w0 = new_window
      and ly = std_layout] b i c
  have p2: "run_loop symbolic env_esc new_window (frames env_esc @ [frame0])
     = run_loop symbolic env_esc new_window (frames env_esc) \<and>
     exit_status (main symbolic std_layout env_esc) = Some EXIT_SUCCESS \<and>
     main symbolic std_layout (env_esc \<lparr> frames := frames env_esc @ [frame0] \<rparr>)
       = main symbolic std_layout env_esc"
    by blast
  from a b i c p1 p2 show ?thesis by blast
qed

end
